theory Spec2Isabelle
  imports Complex_Main "HOL-Library.Word"
begin

section \<open>Narrow-phase geometry primitives (js/data/feature\_tree.js)\<close>

subsection \<open>JavaScript numbers\<close>

text \<open>
  The primitives compute with JavaScript numbers, which are IEEE 754 double precision
  values. A number is \<open>NaN\<close>, an infinity with its sign, or a finite value given by its sign
  (\<open>True\<close> for negative) and its magnitude, which is not negative, so that \<open>-0\<close> and \<open>+0\<close>
  are two values. Every arithmetic operation gives the exact result rounded to the nearest
  double, ties to the even significand, with gradual underflow below \<open>2^(-1022)\<close> and
  overflow to infinity from \<open>2^1024\<close> on.
\<close>

datatype number = NaN | Infinite bool | Number bool real

text \<open>
  Rounding. \<open>bitLength n\<close> is the number of binary digits of \<open>n\<close>; \<open>pow2 e\<close> is \<open>2^e\<close>;
  \<open>ilog2 a\<close> is the exponent \<open>e\<close> with \<open>2^e \<le> a < 2^(e+1)\<close> of a positive \<open>a\<close>, found from the bit
  length of its integer part, or of the integer part of its inverse; \<open>roundTiesToEven\<close>
  rounds to the nearest integer, a tie to the even one. \<open>round_double negative a\<close> is the double
  nearest to the magnitude \<open>a\<close>, with the given sign: the significand has 53 bits, so the
  spacing of the doubles around \<open>a\<close> is \<open>2^(e-52)\<close>, where \<open>e\<close> is the exponent of \<open>a\<close> and at
  least \<open>-1022\<close>.
\<close>

fun bitLength :: "nat \<Rightarrow> nat" where
  "bitLength n = (if n = 0 then 0 else Suc (bitLength (n div 2)))"

declare bitLength.simps [simp del]

definition pow2 :: "int \<Rightarrow> real" where
  "pow2 e = (if 0 \<le> e then 2 ^ nat e else 1 / 2 ^ nat (- e))"

definition ilog2 :: "real \<Rightarrow> int" where
  "ilog2 a =
     (if 1 \<le> a then int (bitLength (nat \<lfloor>a\<rfloor>)) - 1
      else - int (bitLength (nat (\<lceil>1 / a\<rceil> - 1))))"

definition roundTiesToEven :: "real \<Rightarrow> int" where
  "roundTiesToEven q =
     (let f = \<lfloor>q\<rfloor>; d = q - of_int f in
      if d < 1 / 2 then f else if 1 / 2 < d then f + 1 else if even f then f else f + 1)"

definition round_double :: "bool \<Rightarrow> real \<Rightarrow> number" where
  "round_double negative a =
     (if a = 0 then Number negative 0
      else
        let e = max (ilog2 a) (- 1022); ulp = pow2 (e - 52);
            r = of_int (roundTiesToEven (a / ulp)) * ulp
        in if pow2 1024 \<le> r then Infinite negative else Number negative r)"

text \<open>
  The operators \<open>-\<close> (unary), \<open>+\<close>, \<open>-\<close>, \<open>*\<close>, \<open>/\<close>, \<open><\<close> and \<open>===\<close> on numbers. A sum that is
  exactly zero is \<open>-0\<close> only when both summands are negative zeros; the sign of a product
  or quotient is the exclusive or of the signs; a comparison with \<open>NaN\<close> is false; the two
  zeros are equal. \<open>a > b\<close> is \<open>b < a\<close>.
\<close>

definition signed :: "bool \<Rightarrow> real \<Rightarrow> real" where
  "signed negative a = (if negative then - a else a)"

fun number_neg :: "number \<Rightarrow> number" where
  "number_neg NaN = NaN"
| "number_neg (Infinite s) = Infinite (\<not> s)"
| "number_neg (Number s a) = Number (\<not> s) a"

fun number_add :: "number \<Rightarrow> number \<Rightarrow> number" where
  "number_add NaN y = NaN"
| "number_add x NaN = NaN"
| "number_add (Infinite s) (Infinite s') = (if s = s' then Infinite s else NaN)"
| "number_add (Infinite s) (Number s' b) = Infinite s"
| "number_add (Number s a) (Infinite s') = Infinite s'"
| "number_add (Number s a) (Number s' b) =
     (let c = signed s a + signed s' b in
      if c = 0 then Number (s \<and> s') 0 else round_double (c < 0) \<bar>c\<bar>)"

definition number_sub :: "number \<Rightarrow> number \<Rightarrow> number" where
  "number_sub x y = number_add x (number_neg y)"

fun number_mul :: "number \<Rightarrow> number \<Rightarrow> number" where
  "number_mul NaN y = NaN"
| "number_mul x NaN = NaN"
| "number_mul (Infinite s) (Infinite s') = Infinite (s \<noteq> s')"
| "number_mul (Infinite s) (Number s' b) = (if b = 0 then NaN else Infinite (s \<noteq> s'))"
| "number_mul (Number s a) (Infinite s') = (if a = 0 then NaN else Infinite (s \<noteq> s'))"
| "number_mul (Number s a) (Number s' b) = round_double (s \<noteq> s') (a * b)"

fun number_div :: "number \<Rightarrow> number \<Rightarrow> number" where
  "number_div NaN y = NaN"
| "number_div x NaN = NaN"
| "number_div (Infinite s) (Infinite s') = NaN"
| "number_div (Infinite s) (Number s' b) = Infinite (s \<noteq> s')"
| "number_div (Number s a) (Infinite s') = Number (s \<noteq> s') 0"
| "number_div (Number s a) (Number s' b) =
     (if b = 0 then (if a = 0 then NaN else Infinite (s \<noteq> s'))
      else round_double (s \<noteq> s') (a / b))"

fun number_lt :: "number \<Rightarrow> number \<Rightarrow> bool" where
  "number_lt NaN y = False"
| "number_lt x NaN = False"
| "number_lt (Infinite s) (Infinite s') = (s \<and> \<not> s')"
| "number_lt (Infinite s) (Number s' b) = s"
| "number_lt (Number s a) (Infinite s') = (\<not> s')"
| "number_lt (Number s a) (Number s' b) = (signed s a < signed s' b)"

fun number_eq :: "number \<Rightarrow> number \<Rightarrow> bool" where
  "number_eq NaN y = False"
| "number_eq x NaN = False"
| "number_eq (Infinite s) (Infinite s') = (s = s')"
| "number_eq (Infinite s) (Number s' b) = False"
| "number_eq (Number s a) (Infinite s') = False"
| "number_eq (Number s a) (Number s' b) = (signed s a = signed s' b)"

text \<open>
  The number that an integer is, when it is a double (up to \<open>2^53\<close> in magnitude every
  integer is); and the numbers that are finite.
\<close>

definition num :: "int \<Rightarrow> number" where
  "num i = Number (i < 0) (of_int \<bar>i\<bar>)"

fun finiteNumber :: "number \<Rightarrow> bool" where
  "finiteNumber (Number s a) = True"
| "finiteNumber x = False"

text \<open>
  \<open>isInt x i\<close>: the number \<open>x\<close> is the integer \<open>i\<close>, a zero with either sign. Products of
  integers are such numbers: \<^verbatim>\<open>-3 * 0\<close> is \<open>-0\<close>.
\<close>

fun isInt :: "number \<Rightarrow> int \<Rightarrow> bool" where
  "isInt (Number s a) i \<longleftrightarrow> a = of_int \<bar>i\<bar> \<and> (i = 0 \<or> s = (i < 0))"
| "isInt x i \<longleftrightarrow> False"

subsection \<open>Points\<close>

text \<open>
  The narrow phase works on \<open>Point\<close> objects of the point-geometry package: a point is a
  pair of numbers. The four point methods the primitives call are \<open>distSqr\<close>
  (\<^verbatim>\<open>dx = p.x - this.x, dy = p.y - this.y; dx * dx + dy * dy\<close>), \<open>sub\<close>, \<open>_mult\<close> and
  \<open>_add\<close>, which work on the two coordinates.
\<close>

datatype point = Point (px: number) (py: number)

definition distSqr :: "point \<Rightarrow> point \<Rightarrow> number" where
  "distSqr this p =
     (let dx = number_sub (px p) (px this); dy = number_sub (py p) (py this)
      in number_add (number_mul dx dx) (number_mul dy dy))"

definition point_sub :: "point \<Rightarrow> point \<Rightarrow> point" where
  "point_sub this p = Point (number_sub (px this) (px p)) (number_sub (py this) (py p))"

definition point_mult :: "point \<Rightarrow> number \<Rightarrow> point" where
  "point_mult this k = Point (number_mul (px this) k) (number_mul (py this) k)"

definition point_add :: "point \<Rightarrow> point \<Rightarrow> point" where
  "point_add this p = Point (number_add (px this) (px p)) (number_add (py this) (py p))"

definition finitePoint :: "point \<Rightarrow> bool" where
  "finitePoint p \<longleftrightarrow> finiteNumber (px p) \<and> finiteNumber (py p)"

subsection \<open>The two primitives\<close>

text \<open>
  \<^verbatim>\<open>function distToSegmentSquared(p, v, w)\<close>: the squared distance from \<open>p\<close> to the
  segment \<open>v w\<close>, as the code computes it.
\<close>

definition distToSegmentSquared :: "point \<Rightarrow> point \<Rightarrow> point \<Rightarrow> number" where
  "distToSegmentSquared p v w =
     (let l2 = distSqr v w in
      if number_eq l2 (Number False 0) then distSqr p v
      else
        let t = number_div
                  (number_add
                     (number_mul (number_sub (px p) (px v)) (number_sub (px w) (px v)))
                     (number_mul (number_sub (py p) (py v)) (number_sub (py w) (py v))))
                  l2
        in
        if number_lt t (Number False 0) then distSqr p v
        else if number_lt (Number False 1) t then distSqr p w
        else distSqr p (point_add (point_mult (point_sub w v) t) v))"

text \<open>
  The same body with the division made partial: \<open>None\<close> stands for a division whose
  divisor is a zero. It is used to show that \<open>distToSegmentSquared\<close> never divides by zero.
\<close>

definition checked_div :: "number \<Rightarrow> number \<Rightarrow> number option" where
  "checked_div a b = (if number_eq b (Number False 0) then None else Some (number_div a b))"

definition distToSegmentSquared_checked :: "point \<Rightarrow> point \<Rightarrow> point \<Rightarrow> number option" where
  "distToSegmentSquared_checked p v w =
     (let l2 = distSqr v w in
      if number_eq l2 (Number False 0) then Some (distSqr p v)
      else
        (case checked_div
                (number_add
                   (number_mul (number_sub (px p) (px v)) (number_sub (px w) (px v)))
                   (number_mul (number_sub (py p) (py v)) (number_sub (py w) (py v))))
                l2 of
           None \<Rightarrow> None
         | Some t \<Rightarrow>
             if number_lt t (Number False 0) then Some (distSqr p v)
             else if number_lt (Number False 1) t then Some (distSqr p w)
             else Some (distSqr p (point_add (point_mult (point_sub w v) t) v))))"



subsection \<open>The squared distance of the specification\<close>

text \<open>
  The specification speaks of the squared distance from \<open>p\<close> to a segment. These are the
  same formulas in exact real arithmetic, on points with real coordinates:
  \<open>exact_distToSegmentSquared p v w\<close> is the least squared distance from \<open>p\<close> to a point
  \<open>v + t (w - v)\<close>, \<open>0 \<le> t \<le> 1\<close>, of the segment. The computed squared distance is compared
  with it.
\<close>

datatype exact_point = ExactPoint (ex: real) (ey: real)

definition exact_distSqr :: "exact_point \<Rightarrow> exact_point \<Rightarrow> real" where
  "exact_distSqr this p =
     (let dx = ex p - ex this; dy = ey p - ey this in dx * dx + dy * dy)"

definition exact_segmentPoint :: "exact_point \<Rightarrow> exact_point \<Rightarrow> real \<Rightarrow> exact_point" where
  "exact_segmentPoint v w t =
     ExactPoint ((ex w - ex v) * t + ex v) ((ey w - ey v) * t + ey v)"

definition exact_distToSegmentSquared ::
    "exact_point \<Rightarrow> exact_point \<Rightarrow> exact_point \<Rightarrow> real" where
  "exact_distToSegmentSquared p v w =
     (let l2 = exact_distSqr v w in
      if l2 = 0 then exact_distSqr p v
      else
        let t = ((ex p - ex v) * (ex w - ex v) + (ey p - ey v) * (ey w - ey v)) / l2 in
        if t < 0 then exact_distSqr p v
        else if t > 1 then exact_distSqr p w
        else exact_distSqr p (exact_segmentPoint v w t))"


section \<open>The binary-search fast path of the tile parser (worker tile, part\_000)\<close>

text \<open>
  What the JavaScript throws is a value of \<open>js_error\<close>: a \<open>TypeError\<close> for a property
  read on \<open>undefined\<close>, a \<open>RangeError\<close> for \<^verbatim>\<open>new Array(n)\<close> with a negative \<open>n\<close>, and the
  error of the vector tile's \<^verbatim>\<open>layer.feature(i)\<close> for an index outside the layer.
\<close>

datatype js_error = TypeError | RangeError | FeatureIndexOutOfBounds

text \<open>
  A feature of the \<open>markers\<close> layer, with the two properties the fast path reads:
  \<open>properties.c\<close> (the colour index) and \<open>properties.d\<close> (the time). A layer is the list
  of its features: \<open>layer.length\<close> is its length and \<open>layer.feature(i)\<close> its \<open>i\<close>-th
  element.
\<close>

datatype feature = Feature (feature_id: nat) (properties_c: int) (properties_d: int)

type_synonym vt_layer = "feature list"

definition COLOR_OFFSET :: int where
  "COLOR_OFFSET = 10000000000"

text \<open>The result of \<open>featuresFind\<close>: \<open>null\<close> or an index.\<close>

datatype found = Null | Index nat

text \<open>
  The \<^verbatim>\<open>while (low !== high)\<close> loop of \<open>featuresFind\<close>. The loop condition is an
  inequality test, so the loop is modelled as a partial function: \<open>None\<close> is a loop that
  does not return.
\<close>

partial_function (option) featuresFind_loop ::
    "vt_layer \<Rightarrow> int \<Rightarrow> nat \<Rightarrow> nat \<Rightarrow> nat option" where
  "featuresFind_loop layer findKey low high =
     (if low \<noteq> high then
        (let mid = (low + high) div 2;
             properties = layer ! mid in
         if (properties_d properties + properties_c properties * COLOR_OFFSET) - findKey < 0
         then featuresFind_loop layer findKey (mid + 1) high
         else featuresFind_loop layer findKey low mid)
      else Some low)"

declare featuresFind_loop.simps [code]

definition featuresFind :: "vt_layer \<Rightarrow> int \<Rightarrow> int \<Rightarrow> found option" where
  "featuresFind layer color time =
     (let findKey = time + color * COLOR_OFFSET in
      case featuresFind_loop layer findKey 0 (length layer) of
        None \<Rightarrow> None
      | Some low \<Rightarrow> Some (if low = length layer then Null else Index low))"

text \<open>
  JavaScript's reading of a \<open>featuresFind\<close> result as a condition (\<open>null\<close> and \<open>0\<close> are
  falsy) and as a number (\<open>null\<close> is \<open>0\<close>).
\<close>

fun truthy :: "found \<Rightarrow> bool" where
  "truthy Null = False"
| "truthy (Index n) = (n \<noteq> 0)"

fun toNumber :: "found \<Rightarrow> nat" where
  "toNumber Null = 0"
| "toNumber (Index n) = n"

text \<open>
  \<^verbatim>\<open>featuresSlice(layer, begin, end)\<close>: \<^verbatim>\<open>new Array(n)\<close> throws for a negative \<open>n\<close>, and
  the loop \<^verbatim>\<open>while (n--) slice[n] = layer.feature(n + begin)\<close> fills the slice from its
  last index down.
\<close>

fun featuresSlice_loop ::
    "vt_layer \<Rightarrow> nat \<Rightarrow> nat \<Rightarrow> feature list \<Rightarrow> js_error + feature list" where
  "featuresSlice_loop layer beginIdx 0 acc = Inr acc"
| "featuresSlice_loop layer beginIdx (Suc n) acc =
     (if n + beginIdx < length layer
      then featuresSlice_loop layer beginIdx n (layer ! (n + beginIdx) # acc)
      else Inl FeatureIndexOutOfBounds)"

definition featuresSlice :: "vt_layer \<Rightarrow> found \<Rightarrow> found \<Rightarrow> js_error + feature list" where
  "featuresSlice layer beginIdx endIdx =
     (let n = int (toNumber endIdx) - int (toNumber beginIdx) in
      if n < 0 then Inl RangeError
      else featuresSlice_loop layer (toNumber beginIdx) (nat n) [])"

text \<open>
  The values \<open>getFilters\<close> reads from a bucket's filter: the colour index and the two
  time bounds.
\<close>

record filterValues =
  colorIdx :: int
  startTime :: int
  endTime :: int

text \<open>
  The body of the loop of \<open>sortLayerIntoBucketsBinarySearch\<close> for one bucket: the features
  the bucket receives (\<^verbatim>\<open>buckets[id].features = featureSlice\<close>).
\<close>

definition binarySearchFeatures ::
    "vt_layer \<Rightarrow> filterValues \<Rightarrow> (js_error + feature list) option" where
  "binarySearchFeatures layer fv =
     (case featuresFind layer (colorIdx fv) (startTime fv) of
        None \<Rightarrow> None
      | Some startIdx \<Rightarrow>
         (case featuresFind layer (colorIdx fv) (endTime fv) of
            None \<Rightarrow> None
          | Some endIdx0 \<Rightarrow>
              (let endIdx = (if truthy startIdx \<and> \<not> truthy endIdx0
                             then Index (length layer) else endIdx0)
               in Some (featuresSlice layer startIdx endIdx))))"

section \<open>Buckets and element groups (js/data/bucket.js)\<close>

text \<open>
  An element group as \<open>makeRoomFor\<close> builds it. The start index and the offset of an
  element buffer that the shader interface does not have are \<open>undefined\<close> in the source
  (\<^verbatim>\<open>elementBuffer && elementBuffer.length\<close>): \<open>None\<close> here. The two older
  revisions of the file build the first six fields with \<^verbatim>\<open>new ElementGroup(...)\<close>, from
  the same buffer lengths.
\<close>

record ElementGroup =
  vertexStartIndex :: nat
  elementStartIndex :: "nat option"
  secondElementStartIndex :: "nat option"
  elementLength :: nat
  vertexLength :: nat
  secondElementLength :: nat
  elementOffset :: "nat option"
  secondElementOffset :: "nat option"
  vertexOffset :: nat

text \<open>
  A buffer holds its items; \<open>buffer.length\<close> is the number of items. What an item is
  depends on the bucket (the type parameter).
\<close>

record 'a Buffer =
  items :: "'a list"
  itemSize :: nat

text \<open>
  The part of a bucket that \<open>makeRoomFor\<close> and the tessellators work on: the element groups
  of every shader (program) name and the buffers by buffer name. Both are JavaScript
  objects used as dictionaries: a name that is absent reads as \<open>undefined\<close>.
\<close>

record 'a Bucket =
  elementGroups :: "string \<rightharpoonup> ElementGroup list"
  buffers :: "string \<rightharpoonup> 'a Buffer"

text \<open>
  \<^verbatim>\<open>capitalize(string)\<close> is \<^verbatim>\<open>string.charAt(0).toUpperCase() + string.slice(1)\<close>; the
  model covers ASCII names.
\<close>

definition toUpperCase :: "char \<Rightarrow> char" where
  "toUpperCase ch =
     (if 97 \<le> (of_char ch :: nat) \<and> (of_char ch :: nat) \<le> 122
      then char_of ((of_char ch :: nat) - 32) else ch)"

fun capitalize :: "string \<Rightarrow> string" where
  "capitalize [] = []"
| "capitalize (ch # rest) = toUpperCase ch # rest"

definition getBufferName :: "string \<Rightarrow> string \<Rightarrow> string" where
  "getBufferName shaderName type = shaderName @ capitalize type"

text \<open>
  \<^verbatim>\<open>Bucket.prototype.makeRoomFor(shaderName, numVertices)\<close>. Reading \<open>groups.length\<close> of
  an absent group list and \<open>vertexBuffer.length\<close> of an absent vertex buffer throw a
  \<open>TypeError\<close>. The group returned is the last one of the shader's group list in the
  bucket returned: the caller's later updates of the group are updates of that element.
\<close>

definition makeRoomFor ::
    "string \<Rightarrow> nat \<Rightarrow> 'a Bucket \<Rightarrow> js_error + (ElementGroup \<times> 'a Bucket)" where
  "makeRoomFor shaderName numVertices this =
     (case elementGroups this shaderName of
        None \<Rightarrow> Inl TypeError
      | Some groups \<Rightarrow>
          if groups = [] \<or> vertexLength (last groups) + numVertices > 65535 then
            (case buffers this (getBufferName shaderName ''vertex'') of
               None \<Rightarrow> Inl TypeError
             | Some vertexBuffer \<Rightarrow>
                 (let elementBuffer = buffers this (getBufferName shaderName ''element'');
                      secondElementBuffer =
                        buffers this (getBufferName shaderName ''secondElement'');
                      currentGroup = \<lparr>
                        vertexStartIndex = length (items vertexBuffer),
                        elementStartIndex = map_option (\<lambda>b. length (items b)) elementBuffer,
                        secondElementStartIndex =
                          map_option (\<lambda>b. length (items b)) secondElementBuffer,
                        elementLength = 0,
                        vertexLength = 0,
                        secondElementLength = 0,
                        elementOffset =
                          map_option (\<lambda>b. length (items b) * itemSize b) elementBuffer,
                        secondElementOffset =
                          map_option (\<lambda>b. length (items b) * itemSize b) secondElementBuffer,
                        vertexOffset = length (items vertexBuffer) * itemSize vertexBuffer \<rparr>
                  in Inr (currentGroup,
                          this\<lparr>elementGroups :=
                            (elementGroups this)(shaderName \<mapsto> groups @ [currentGroup])\<rparr>)))
          else Inr (last groups, this))"



text \<open>
  \<^verbatim>\<open>Bucket.prototype.createBuffers\<close>: fresh dictionaries, then for every shader interface
  its buffers, empty, and an empty group list. The item sizes come from the \<open>Buffer\<close>
  class, which is not among the sources: they are fields of the interface here.
\<close>

record shaderInterface =
  vertexBuffer :: bool
  elementBuffer :: bool
  secondElementBuffer :: bool
  vertexItemSize :: nat
  elementItemSize :: nat
  secondElementItemSize :: nat

definition createBuffers_step :: "string \<times> shaderInterface \<Rightarrow> 'a Bucket \<Rightarrow> 'a Bucket" where
  "createBuffers_step entry this =
     (let shaderName = fst entry; shaderInterface = snd entry;
          b1 = (if vertexBuffer shaderInterface
                then (buffers this)(getBufferName shaderName ''vertex'' \<mapsto>
                       \<lparr>items = [], itemSize = vertexItemSize shaderInterface\<rparr>)
                else buffers this);
          b2 = (if elementBuffer shaderInterface
                then b1(getBufferName shaderName ''element'' \<mapsto>
                       \<lparr>items = [], itemSize = elementItemSize shaderInterface\<rparr>)
                else b1);
          b3 = (if secondElementBuffer shaderInterface
                then b2(getBufferName shaderName ''secondElement'' \<mapsto>
                       \<lparr>items = [], itemSize = secondElementItemSize shaderInterface\<rparr>)
                else b2)
      in this\<lparr>elementGroups := (elementGroups this)(shaderName \<mapsto> []), buffers := b3\<rparr>)"

definition createBuffers :: "(string \<times> shaderInterface) list \<Rightarrow> 'a Bucket \<Rightarrow> 'a Bucket" where
  "createBuffers shaderInterfaces this =
     fold createBuffers_step shaderInterfaces
       (this\<lparr>elementGroups := Map.empty, buffers := Map.empty\<rparr>)"

text \<open>Sequencing of calls that may throw.\<close>

definition js_bind :: "js_error + 'a \<Rightarrow> ('a \<Rightarrow> js_error + 'b) \<Rightarrow> js_error + 'b" where
  "js_bind m f = (case m of Inl e \<Rightarrow> Inl e | Inr v \<Rightarrow> f v)"

text \<open>
  Modelled from the spec: the \<open>Buffer\<close> and \<open>StructArray\<close> classes are not among the
  sources. \<^verbatim>\<open>buffer.push(...)\<close> (in the revision of the circle bucket,
  \<^verbatim>\<open>array.emplaceBack(...)\<close>) appends one item and returns its index: the spec has the
  typed buffers "appending structured records", and the callers use the value returned as
  the index of the new record. Calling it on an absent buffer throws a \<open>TypeError\<close>.
\<close>

definition push :: "string \<Rightarrow> 'a \<Rightarrow> 'a Bucket \<Rightarrow> js_error + (nat \<times> 'a Bucket)" where
  "push bufferName item this =
     (case buffers this bufferName of
        None \<Rightarrow> Inl TypeError
      | Some buffer \<Rightarrow>
          Inr (length (items buffer),
               this\<lparr>buffers := (buffers this)(bufferName \<mapsto>
                        buffer\<lparr>items := items buffer @ [item]\<rparr>)\<rparr>))"

text \<open>
  An assignment to a field of the group that \<open>makeRoomFor\<close> returned, such as
  \<^verbatim>\<open>group.vertexLength += 4\<close>: the group is the last one of the shader's list.
\<close>

definition updateGroup ::
    "string \<Rightarrow> (ElementGroup \<Rightarrow> ElementGroup) \<Rightarrow> 'a Bucket \<Rightarrow> 'a Bucket" where
  "updateGroup shaderName f this =
     (case elementGroups this shaderName of
        None \<Rightarrow> this
      | Some groups \<Rightarrow>
          this\<lparr>elementGroups :=
            (elementGroups this)(shaderName \<mapsto> butlast groups @ [f (last groups)])\<rparr>)"

text \<open>
  The protocol of every tessellator: ask \<open>makeRoomFor\<close> for room for \<open>n\<close> vertices, push
  the \<open>n\<close> vertices to the shader's vertex buffer and add \<open>n\<close> to the \<open>vertexLength\<close> of the
  group returned. \<open>addVerticesAll\<close> is a sequence of such calls, each with its shader name.
\<close>

fun pushAll :: "string \<Rightarrow> 'a list \<Rightarrow> 'a Bucket \<Rightarrow> js_error + 'a Bucket" where
  "pushAll bufferName [] this = Inr this"
| "pushAll bufferName (item # rest) this =
     js_bind (push bufferName item this) (\<lambda>(i, this'). pushAll bufferName rest this')"

definition addVertices :: "string \<Rightarrow> 'a list \<Rightarrow> 'a Bucket \<Rightarrow> js_error + 'a Bucket" where
  "addVertices shaderName vertices this =
     js_bind (makeRoomFor shaderName (length vertices) this) (\<lambda>(group, this1).
     js_bind (pushAll (getBufferName shaderName ''vertex'') vertices this1) (\<lambda>this2.
       Inr (updateGroup shaderName
              (\<lambda>g. g\<lparr>vertexLength := vertexLength g + length vertices\<rparr>) this2)))"

fun addVerticesAll :: "(string \<times> 'a list) list \<Rightarrow> 'a Bucket \<Rightarrow> js_error + 'a Bucket" where
  "addVerticesAll [] this = Inr this"
| "addVerticesAll (call # calls) this =
     js_bind (addVertices (fst call) (snd call) this) (addVerticesAll calls)"

text \<open>The invariant: no element group of any shader name has more than 65535 vertices.\<close>

definition groupsWithinLimit :: "'a Bucket \<Rightarrow> bool" where
  "groupsWithinLimit this =
     (\<forall>shaderName groups. elementGroups this shaderName = Some groups \<longrightarrow>
        (\<forall>g \<in> set groups. vertexLength g \<le> 65535))"

section \<open>The circle bucket (circle\_bucket.js, in js/render/draw\_circle.js)\<close>

text \<open>
  The circle bucket keeps its vertices in \<^verbatim>\<open>this.arrays.circleVertex\<close> and its triangles in
  \<^verbatim>\<open>this.arrays.circleElement\<close>; \<open>arrays\<close> is the \<open>buffers\<close> dictionary of the model, and
  \<open>makeRoomFor\<close> is the method of \<open>Bucket\<close> above. A vertex is its \<open>a_pos\<close> attribute, two
  components of type \<open>Int16\<close>: the numbers passed to \<open>emplaceBack\<close> are stored as 16-bit
  words. The paint attributes that \<open>addPaintAttributes\<close> writes into the vertices of the
  feature afterwards (\<open>a_color\<close>, \<open>a_radius\<close>) are not modelled: that method is not among
  the sources, and it adds no vertex. The geometry is the result of \<open>loadGeometry\<close>: rings
  of points with integer coordinates.
\<close>

definition EXTENT :: int where "EXTENT = 8192"

datatype circle_item = CircleVertex "16 word" "16 word" | CircleElement int int int

text \<open>
  \<^verbatim>\<open>addCircleVertex(x, y, extrudeX, extrudeY)\<close>. The callers pass \<open>-1\<close> or \<open>1\<close> as
  extrusion, for which \<^verbatim>\<open>(extrude + 1) / 2\<close> is the integer \<open>0\<close> or \<open>1\<close>.
\<close>

definition addCircleVertex ::
    "int \<Rightarrow> int \<Rightarrow> int \<Rightarrow> int \<Rightarrow> circle_item Bucket \<Rightarrow> js_error + (nat \<times> circle_item Bucket)" where
  "addCircleVertex x y extrudeX extrudeY this =
     push ''circleVertex''
       (CircleVertex (word_of_int ((x * 2) + ((extrudeX + 1) div 2)))
                     (word_of_int ((y * 2) + ((extrudeY + 1) div 2)))) this"

text \<open>
  The body of the inner loop of \<open>addFeature\<close> for one point: \<open>continue\<close> for a point
  outside the tile, else four vertices and two triangles.
\<close>

definition addCirclePoint :: "int \<times> int \<Rightarrow> circle_item Bucket \<Rightarrow> js_error + circle_item Bucket" where
  "addCirclePoint pt this =
     (let x = fst pt; y = snd pt in
      if x < 0 \<or> x \<ge> EXTENT \<or> y < 0 \<or> y \<ge> EXTENT then Inr this
      else
        js_bind (makeRoomFor ''circle'' 4 this) (\<lambda>(group, t0).
        js_bind (addCircleVertex x y (- 1) (- 1) t0) (\<lambda>(i, t1).
        (let index = int i - int (vertexStartIndex group) in
        js_bind (addCircleVertex x y 1 (- 1) t1) (\<lambda>(_, t2).
        js_bind (addCircleVertex x y 1 1 t2) (\<lambda>(_, t3).
        js_bind (addCircleVertex x y (- 1) 1 t3) (\<lambda>(_, t4).
        (let t5 = updateGroup ''circle'' (\<lambda>g. g\<lparr>vertexLength := vertexLength g + 4\<rparr>) t4 in
        js_bind (push ''circleElement'' (CircleElement index (index + 1) (index + 2)) t5) (\<lambda>(_, t6).
        js_bind (push ''circleElement'' (CircleElement index (index + 3) (index + 2)) t6) (\<lambda>(_, t7).
        Inr (updateGroup ''circle'' (\<lambda>g. g\<lparr>elementLength := elementLength g + 2\<rparr>) t7)))))))))))"

text \<open>The two nested loops of \<^verbatim>\<open>CircleBucket.prototype.addFeature\<close>.\<close>

fun addCircleRing :: "(int \<times> int) list \<Rightarrow> circle_item Bucket \<Rightarrow> js_error + circle_item Bucket" where
  "addCircleRing [] this = Inr this"
| "addCircleRing (pt # rest) this = js_bind (addCirclePoint pt this) (addCircleRing rest)"

fun addFeature :: "(int \<times> int) list list \<Rightarrow> circle_item Bucket \<Rightarrow> js_error + circle_item Bucket" where
  "addFeature [] this = Inr this"
| "addFeature (ring # rings) this = js_bind (addCircleRing ring this) (addFeature rings)"

text \<open>
  Notions used to state the properties of the circle bucket: a point inside the tile (the
  negation of the test before \<open>continue\<close>), a bucket whose \<open>createBuffers\<close> has made the
  circle's group list and its two buffers, the length of a buffer, the sum of a length
  field over the groups of a shader, and the number of points of a geometry that are inside
  the tile.
\<close>

definition insideTile :: "int \<times> int \<Rightarrow> bool" where
  "insideTile pt = (0 \<le> fst pt \<and> fst pt < EXTENT \<and> 0 \<le> snd pt \<and> snd pt < EXTENT)"

definition circleReady :: "circle_item Bucket \<Rightarrow> bool" where
  "circleReady this =
     (elementGroups this ''circle'' \<noteq> None \<and> buffers this ''circleVertex'' \<noteq> None
      \<and> buffers this ''circleElement'' \<noteq> None)"

definition bufferLength :: "string \<Rightarrow> 'a Bucket \<Rightarrow> nat" where
  "bufferLength bufferName this =
     (case buffers this bufferName of None \<Rightarrow> 0 | Some buffer \<Rightarrow> length (items buffer))"

definition groupTotal :: "(ElementGroup \<Rightarrow> nat) \<Rightarrow> string \<Rightarrow> 'a Bucket \<Rightarrow> nat" where
  "groupTotal field shaderName this =
     (case elementGroups this shaderName of None \<Rightarrow> 0
      | Some groups \<Rightarrow> sum_list (map field groups))"

fun insideCount :: "(int \<times> int) list list \<Rightarrow> nat" where
  "insideCount [] = 0"
| "insideCount (ring # rings) = length (filter insideTile ring) + insideCount rings"

text \<open>
  The items of a buffer, and the four vertices that \<open>addFeature\<close> stores for a point: the
  encoded positions for the extrusions \<open>(-1, -1)\<close>, \<open>(1, -1)\<close>, \<open>(1, 1)\<close>, \<open>(-1, 1)\<close>, as
  \<open>Int16\<close>.
\<close>

definition bufferItems :: "string \<Rightarrow> 'a Bucket \<Rightarrow> 'a list" where
  "bufferItems bufferName this =
     (case buffers this bufferName of None \<Rightarrow> [] | Some buffer \<Rightarrow> items buffer)"

definition circleQuad :: "int \<times> int \<Rightarrow> circle_item list" where
  "circleQuad pt =
     [CircleVertex (word_of_int (fst pt * 2)) (word_of_int (snd pt * 2)),
      CircleVertex (word_of_int (fst pt * 2 + 1)) (word_of_int (snd pt * 2)),
      CircleVertex (word_of_int (fst pt * 2 + 1)) (word_of_int (snd pt * 2 + 1)),
      CircleVertex (word_of_int (fst pt * 2)) (word_of_int (snd pt * 2 + 1))]"

section \<open>The tile parser: dependencies, tessellation order and placement (worker tile, part\_000)\<close>

text \<open>
  \<open>tile.status\<close>: not set by the constructor (\<open>Unparsed\<close>), then \<^verbatim>\<open>'parsing'\<close>, then
  \<^verbatim>\<open>'done'\<close>.
\<close>

datatype status = Unparsed | Parsing | Done

text \<open>
  What the parser reads of a bucket: its id, which is the id of its layer, and its type,
  the number of features sorted into it, the icon names that its \<open>updateIcons\<close> assigns to
  the icon dictionary, in the order of the assignments, and whether one of its buffers is
  non-empty once it is tessellated (the test of \<open>isBucketEmpty\<close>). The bucket classes that
  decide the last two are not among the sources: they are fields here.
\<close>

record tile_bucket =
  bucket_id :: string
  bucket_type :: string
  features_length :: nat
  bucket_icons :: "string list"
  buffers_nonempty :: bool

text \<open>
  What the parser does to its collaborators, in the order in which it does it: constructing
  a collision tile for an angle and a pitch, sending the two requests to the actor,
  \<open>bucket.populateBuffers\<close>, \<open>bucket.placeFeatures\<close> (with the \<open>showCollisionBoxes\<close> argument,
  \<open>None\<close> for \<open>null\<close>), and the two ways of calling \<open>callback\<close>: with an error, or with a
  result whose buckets are given by their ids. \<open>'n\<close> is the type of numbers and \<open>'e\<close> the
  type of (truthy) errors.
\<close>

datatype ('n, 'e) effect =
    NewCollisionTile 'n 'n
  | SendGetGlyphs
  | SendGetIcons "string list"
  | PopulateBuffers tile_bucket
  | PlaceFeatures tile_bucket "bool option"
  | CallbackError 'e
  | CallbackResult "string list"

text \<open>
  The tile: its fields; the variables of the closure of one \<open>parse\<close> call that the
  callbacks share (\<open>buckets\<close>, \<open>deps\<close>); for each of the two requests whether its response
  is still to come (the actor calls a callback once, when the response arrives); and the
  effects so far.
\<close>

record ('n, 'e) WorkerTile =
  status :: status
  angle :: 'n
  pitch :: 'n
  showCollisionBoxes :: bool
  redoPlacementAfterDone :: bool
  symbolBuckets :: "tile_bucket list"
  buckets :: "tile_bucket list"
  deps :: nat
  glyphsPending :: bool
  iconsPending :: bool
  effects :: "('n, 'e) effect list"

text \<open>What \<open>redoPlacement\<close> returns: \<^verbatim>\<open>{}\<close>, or a result with the serialized symbol buckets.\<close>

datatype placement_result = EmptyObject | PlacementResult "string list"

text \<open>Appending to the effects.\<close>

definition perform :: "('n, 'e) effect list \<Rightarrow> ('n, 'e) WorkerTile \<Rightarrow> ('n, 'e) WorkerTile" where
  "perform es tile = tile\<lparr>effects := effects tile @ es\<rparr>"

text \<open>\<^verbatim>\<open>buckets.filter(isBucketEmpty).map(serializeBucket)\<close>, as ids.\<close>

definition serializedBuckets :: "tile_bucket list \<Rightarrow> string list" where
  "serializedBuckets bs = map bucket_id (filter buffers_nonempty bs)"

text \<open>\<^verbatim>\<open>WorkerTile.prototype.redoPlacement(angle, pitch, showCollisionBoxes)\<close>.\<close>

definition redoPlacement ::
    "'n \<Rightarrow> 'n \<Rightarrow> bool option \<Rightarrow> ('n, 'e) WorkerTile \<Rightarrow> placement_result \<times> ('n, 'e) WorkerTile" where
  "redoPlacement angle' pitch' showCollisionBoxes' this =
     (if status this \<noteq> Done then
        (EmptyObject, this\<lparr>redoPlacementAfterDone := True, angle := angle'\<rparr>)
      else
        (PlacementResult (serializedBuckets (symbolBuckets this)),
         perform (NewCollisionTile angle' pitch' #
                  map (\<lambda>b. PlaceFeatures b showCollisionBoxes') (rev (symbolBuckets this)))
           this))"

text \<open>The local function \<open>done\<close> of \<open>parse\<close>.\<close>

definition doneParsing :: "('n, 'e) WorkerTile \<Rightarrow> ('n, 'e) WorkerTile" where
  "doneParsing tile =
     (let tile1 = tile\<lparr>status := Done\<rparr>;
          tile2 = (if redoPlacementAfterDone tile1
                   then (snd (redoPlacement (angle tile1) (pitch tile1) None tile1))
                          \<lparr>redoPlacementAfterDone := False\<rparr>
                   else tile1)
      in perform [CallbackResult (serializedBuckets (buckets tile2))] tile2)"

text \<open>
  The local function \<open>parseBucket\<close>: of its body the model keeps the call of
  \<open>populateBuffers\<close> (the feature tree and the time statistics are left out).
\<close>

definition parseBucket :: "tile_bucket \<Rightarrow> ('n, 'e) WorkerTile \<Rightarrow> ('n, 'e) WorkerTile" where
  "parseBucket bucket tile = perform [PopulateBuffers bucket] tile"

text \<open>
  The local function \<open>gotDependency(err)\<close>; \<open>None\<close> is a call without an error. The loop
  from \<open>symbolBuckets.length - 1\<close> down to \<open>0\<close> visits the symbol buckets in reverse.
\<close>

definition gotDependency :: "'e option \<Rightarrow> ('n, 'e) WorkerTile \<Rightarrow> ('n, 'e) WorkerTile" where
  "gotDependency err tile =
     (case err of
        Some e \<Rightarrow> perform [CallbackError e] tile
      | None \<Rightarrow>
          (let tile1 = tile\<lparr>deps := deps tile + 1\<rparr> in
           if deps tile1 = 2
           then doneParsing (fold parseBucket (rev (symbolBuckets tile1)) tile1)
           else tile1))"

text \<open>
  \<open>bucketsById\<close> and \<open>icons\<close> are JavaScript objects used as dictionaries. Such an object is
  the list of its own properties in the order in which they were created. An assignment
  \<^verbatim>\<open>obj[key] = value\<close> to a key that the object has replaces the value and keeps the
  position; to a new key it adds the property at the end; to the key \<^verbatim>\<open>__proto__\<close> it adds
  no property (it sets the prototype of the object; the properties that an object
  inherits from a prototype are not modelled). \<^verbatim>\<open>for (key in obj)\<close> and \<open>Object.keys\<close>
  enumerate first the keys that are array indices, which are the decimal numerals, without
  a leading zero, of the numbers below \<open>2^32 - 1\<close>, in ascending numeric order, and then the
  other keys in the order of their creation.
\<close>

definition isDigit :: "char \<Rightarrow> bool" where
  "isDigit c \<longleftrightarrow> c \<in> set ''0123456789''"

definition digitValue :: "char \<Rightarrow> nat" where
  "digitValue c = length (takeWhile (\<lambda>d. d \<noteq> c) ''0123456789'')"

definition parseUint :: "string \<Rightarrow> nat" where
  "parseUint key = foldl (\<lambda>n c. 10 * n + digitValue c) 0 key"

definition isArrayIndex :: "string \<Rightarrow> bool" where
  "isArrayIndex key \<longleftrightarrow>
     key \<noteq> [] \<and> list_all isDigit key \<and> (length key = 1 \<or> hd key \<noteq> CHR ''0'')
     \<and> parseUint key < 2 ^ 32 - 1"

definition assign :: "string \<Rightarrow> 'v \<Rightarrow> (string \<times> 'v) list \<Rightarrow> (string \<times> 'v) list" where
  "assign key v obj =
     (if key = ''__proto__'' then obj
      else if key \<in> fst ` set obj then map (\<lambda>p. if fst p = key then (key, v) else p) obj
      else obj @ [(key, v)])"

definition forIn :: "(string \<times> 'v) list \<Rightarrow> (string \<times> 'v) list" where
  "forIn obj =
     sort_key (\<lambda>p. parseUint (fst p)) (filter (\<lambda>p. isArrayIndex (fst p)) obj)
       @ filter (\<lambda>p. \<not> isArrayIndex (fst p)) obj"

definition Object_keys :: "(string \<times> 'v) list \<Rightarrow> string list" where
  "Object_keys obj = map fst (forIn obj)"

text \<open>
  \<open>parse\<close>, from the making of \<open>bucketsById\<close> on. The argument is the list of the buckets
  that the first loop creates, one for each layer of the \<open>layers\<close> array that passes its
  tests, in the order of that array (the order in which the style declares the layers),
  each as it is once the features have been sorted into it. The loop assigns each bucket
  to \<^verbatim>\<open>bucketsById[layer.id]\<close>, and the id of a bucket is the id of its layer; the loop
  \<^verbatim>\<open>for (var id in bucketsById)\<close> then visits the buckets in the enumeration order of that
  object. The icon names are the keys of the object \<open>icons\<close>, to which the \<open>updateIcons\<close> of
  the symbol buckets, called from the last bucket to the first, assign their names. The two
  requests are sent through the actor, which passes messages: their callbacks run after
  \<open>parse\<close> has returned, as events. With no icon to fetch \<open>gotDependency()\<close> is called at
  once.
\<close>

definition parse :: "tile_bucket list \<Rightarrow> ('n, 'e) WorkerTile \<Rightarrow> ('n, 'e) WorkerTile" where
  "parse layerBuckets this =
     (let tile0 = this\<lparr>status := Parsing\<rparr>;
          bucketsById = fold (\<lambda>b. assign (bucket_id b) b) layerBuckets [];
          buckets' = filter (\<lambda>b. features_length b \<noteq> 0) (map snd (forIn bucketsById));
          symbolBuckets' = filter (\<lambda>b. bucket_type b = ''symbol'') buckets';
          otherBuckets = filter (\<lambda>b. bucket_type b \<noteq> ''symbol'') buckets';
          tile1 = perform [NewCollisionTile (angle tile0) (pitch tile0)]
                    (tile0\<lparr>symbolBuckets := symbolBuckets', buckets := buckets', deps := 0,
                            glyphsPending := False, iconsPending := False\<rparr>);
          tile2 =
            (if symbolBuckets' \<noteq> [] then
               (let icons = Object_keys
                              (fold (\<lambda>name. assign name True)
                                 (concat (map bucket_icons (rev symbolBuckets'))) []);
                    tile_g = perform [SendGetGlyphs] (tile1\<lparr>glyphsPending := True\<rparr>)
                in if icons \<noteq> []
                   then perform [SendGetIcons icons] (tile_g\<lparr>iconsPending := True\<rparr>)
                   else gotDependency None tile_g)
             else tile1);
          tile3 = fold parseBucket (rev otherBuckets) tile2
      in if symbolBuckets' = [] then doneParsing tile3 else tile3)"

text \<open>
  What happens to a tile after \<open>parse\<close> has returned: the response to one of the two
  requests arrives, with or without an error, or \<open>redoPlacement\<close> is called. A response
  that no request is waiting for is not delivered.
\<close>

datatype ('n, 'e) event =
    GlyphsResponse "'e option"
  | IconsResponse "'e option"
  | RedoPlacement 'n 'n bool

fun deliver :: "('n, 'e) event \<Rightarrow> ('n, 'e) WorkerTile \<Rightarrow> ('n, 'e) WorkerTile" where
  "deliver (GlyphsResponse err) tile =
     (if glyphsPending tile then gotDependency err (tile\<lparr>glyphsPending := False\<rparr>) else tile)"
| "deliver (IconsResponse err) tile =
     (if iconsPending tile then gotDependency err (tile\<lparr>iconsPending := False\<rparr>) else tile)"
| "deliver (RedoPlacement angle' pitch' showCollisionBoxes') tile =
     snd (redoPlacement angle' pitch' (Some showCollisionBoxes') tile)"

definition run :: "('n, 'e) event list \<Rightarrow> ('n, 'e) WorkerTile \<Rightarrow> ('n, 'e) WorkerTile" where
  "run events tile = fold deliver events tile"


text \<open>
  Notions used to state the properties: the order in which \<open>parse\<close> visits the buckets, the
  symbol buckets and the icon list that it computes, the first response to each request in
  a list of events, the symbol buckets whose \<open>populateBuffers\<close> a list of effects contains,
  in order, and the results passed to \<open>callback\<close>.
\<close>

definition visitOrder :: "tile_bucket list \<Rightarrow> tile_bucket list" where
  "visitOrder layerBuckets =
     map snd (forIn (fold (\<lambda>b. assign (bucket_id b) b) layerBuckets []))"

definition symbolBucketsOf :: "tile_bucket list \<Rightarrow> tile_bucket list" where
  "symbolBucketsOf layerBuckets =
     filter (\<lambda>b. bucket_type b = ''symbol'')
       (filter (\<lambda>b. features_length b \<noteq> 0) (visitOrder layerBuckets))"

definition iconsOf :: "tile_bucket list \<Rightarrow> string list" where
  "iconsOf layerBuckets =
     Object_keys
       (fold (\<lambda>name. assign name True)
          (concat (map bucket_icons (rev (symbolBucketsOf layerBuckets)))) [])"

fun firstGlyphs :: "('n, 'e) event list \<Rightarrow> 'e option option" where
  "firstGlyphs [] = None"
| "firstGlyphs (GlyphsResponse err # events) = Some err"
| "firstGlyphs (ev # events) = firstGlyphs events"

fun firstIcons :: "('n, 'e) event list \<Rightarrow> 'e option option" where
  "firstIcons [] = None"
| "firstIcons (IconsResponse err # events) = Some err"
| "firstIcons (ev # events) = firstIcons events"

fun populated :: "('n, 'e) effect \<Rightarrow> tile_bucket list" where
  "populated (PopulateBuffers b) = [b]"
| "populated eff = []"

definition symbolPopulates :: "('n, 'e) effect list \<Rightarrow> tile_bucket list" where
  "symbolPopulates es = filter (\<lambda>b. bucket_type b = ''symbol'') (concat (map populated es))"

fun resultOf :: "('n, 'e) effect \<Rightarrow> string list list" where
  "resultOf (CallbackResult r) = [r]"
| "resultOf eff = []"

definition callbackResults :: "('n, 'e) effect list \<Rightarrow> string list list" where
  "callbackResults es = concat (map resultOf es)"

text \<open>
  The collision tiles that a list of effects constructs, as pairs of angle and pitch, and
  the events that are responses.
\<close>

fun placed :: "('n, 'e) effect \<Rightarrow> ('n \<times> 'n) list" where
  "placed (NewCollisionTile a p) = [(a, p)]"
| "placed eff = []"

definition placements :: "('n, 'e) effect list \<Rightarrow> ('n \<times> 'n) list" where
  "placements es = concat (map placed es)"

fun isResponse :: "('n, 'e) event \<Rightarrow> bool" where
  "isResponse (RedoPlacement a p sh) = False"
| "isResponse ev = True"

section \<open>The feature tree and its serialization (js/data/feature\_tree.js)\<close>

text \<open>
  A record of the \<open>FeatureIndexArray\<close>, with the member types the source declares:
  \<open>Uint32\<close>, \<open>Uint16\<close>, \<open>Uint16\<close>.
\<close>

record FeatureIndex =
  featureIndex :: "32 word"
  sourceLayerIndex :: "16 word"
  bucketIndex :: "16 word"

text \<open>
  Modelled from the spec: the \<open>StructArrayType\<close> class (\<open>util/struct_array\<close>) is not among the
  sources. An array is the list of its records; \<open>emplaceBack\<close> appends one record, storing
  each number in its member type; \<open>serialize\<close> gives the array's buffer and the constructor
  called with it gives the array back: per the spec, "grid and feature-index-record
  contents are preserved exactly".
\<close>

datatype struct_array_buffer = StructArrayBuffer "FeatureIndex list"

definition FeatureIndexArray_serialize :: "FeatureIndex list \<Rightarrow> struct_array_buffer" where
  "FeatureIndexArray_serialize array = StructArrayBuffer array"

fun FeatureIndexArray_new :: "struct_array_buffer \<Rightarrow> FeatureIndex list" where
  "FeatureIndexArray_new (StructArrayBuffer array) = array"

definition emplaceBack :: "nat \<Rightarrow> nat \<Rightarrow> nat \<Rightarrow> FeatureIndex list \<Rightarrow> FeatureIndex list" where
  "emplaceBack fi sli bi array =
     array @ [\<lparr>featureIndex = word_of_nat fi, sourceLayerIndex = word_of_nat sli,
               bucketIndex = word_of_nat bi\<rparr>]"

text \<open>
  The numbers of a bounding box: the box of a ring starts as
  \<^verbatim>\<open>[Infinity, Infinity, -Infinity, -Infinity]\<close> and takes \<open>Math.min\<close> and \<open>Math.max\<close> with the
  (integer) coordinates of the ring's points.
\<close>

datatype extended = MinusInfinity | Finite int | PlusInfinity

fun Math_min :: "extended \<Rightarrow> int \<Rightarrow> extended" where
  "Math_min MinusInfinity v = MinusInfinity"
| "Math_min (Finite a) v = Finite (min a v)"
| "Math_min PlusInfinity v = Finite v"

fun Math_max :: "extended \<Rightarrow> int \<Rightarrow> extended" where
  "Math_max MinusInfinity v = Finite v"
| "Math_max (Finite a) v = Finite (max a v)"
| "Math_max PlusInfinity v = PlusInfinity"

type_synonym bbox = "extended \<times> extended \<times> extended \<times> extended"

text \<open>
  Modelled from the spec: the \<open>Grid\<close> class (\<open>util/grid\<close>) is not among the sources. Per the
  spec it is "a coarse uniform grid over tile space supporting bounding-box insert and
  range query", whose entries are "a 4-tuple bounding box plus an opaque integer key": a
  grid is its three construction parameters and the list of its entries; \<open>toArrayBuffer\<close>
  gives its buffer and the constructor called with a buffer gives the grid back, as "grid
  and feature-index-record contents are preserved exactly".
\<close>

record Grid =
  grid_n :: nat
  grid_extent :: int
  grid_padding :: int
  grid_entries :: "(nat \<times> bbox) list"

datatype grid_buffer = GridBuffer Grid

definition Grid_new :: "nat \<Rightarrow> int \<Rightarrow> int \<Rightarrow> Grid" where
  "Grid_new n extent padding =
     \<lparr>grid_n = n, grid_extent = extent, grid_padding = padding, grid_entries = []\<rparr>"

definition Grid_insert :: "nat \<Rightarrow> bbox \<Rightarrow> Grid \<Rightarrow> Grid" where
  "Grid_insert key box g = g\<lparr>grid_entries := grid_entries g @ [(key, box)]\<rparr>"

definition toArrayBuffer :: "Grid \<Rightarrow> grid_buffer" where
  "toArrayBuffer g = GridBuffer g"

fun Grid_from_buffer :: "grid_buffer \<Rightarrow> Grid" where
  "Grid_from_buffer (GridBuffer g) = g"

text \<open>The tile coordinate, and the \<open>data\<close> object that \<open>serialize\<close> builds.\<close>

record TileCoord =
  coord_z :: int
  coord_x :: int
  coord_y :: int

record 'ids Serialized =
  ser_coord :: TileCoord
  ser_overscaling :: real
  ser_grid :: grid_buffer
  ser_featureIndexArray :: struct_array_buffer
  ser_bucketLayerIDs :: "'ids option"

text \<open>
  The feature tree. \<open>rawTileData\<close> and \<open>bucketLayerIDs\<close> are not set by the first branch of
  the constructor (the worker assigns them): \<open>None\<close> is \<open>undefined\<close>. \<open>vtLayers\<close> is the
  decode of the raw tile that \<open>query\<close> makes on first use (with it the source layer coder,
  which is computed from it). The type parameters are the raw tile bytes, the collision
  tile, the bucket layer ids and the decoded layers.
\<close>

record ('raw, 'ct, 'ids, 'vt) FeatureTree =
  grid :: Grid
  featureIndexArray :: "FeatureIndex list"
  rawTileData :: "'raw option"
  bucketLayerIDs :: "'ids option"
  coord :: TileCoord
  overscaling :: real
  tree_x :: int
  tree_y :: int
  tree_z :: real
  collisionTile :: "'ct option"
  vtLayers :: "'vt option"

text \<open>
  \<^verbatim>\<open>function FeatureTree(coord, overscaling, collisionTile)\<close>. The constructor is called in
  two ways, told apart by \<^verbatim>\<open>if (coord.grid)\<close>: with a tile coordinate and an overscaling
  factor, or with serialized data (whose \<open>grid\<close> is a buffer) and the raw tile data.
\<close>

datatype ('raw, 'ids) constructor_args =
    FromCoord TileCoord real
  | FromSerialized "'ids Serialized" 'raw

fun FeatureTree_new ::
    "('raw, 'ids) constructor_args \<Rightarrow> 'ct option \<Rightarrow> ('raw, 'ct, 'ids, 'vt) FeatureTree" where
  "FeatureTree_new (FromSerialized serialized raw) ct =
     (let coord' = ser_coord serialized; overscaling' = ser_overscaling serialized in
      \<lparr>grid = Grid_from_buffer (ser_grid serialized),
       featureIndexArray = FeatureIndexArray_new (ser_featureIndexArray serialized),
       rawTileData = Some raw,
       bucketLayerIDs = ser_bucketLayerIDs serialized,
       coord = coord', overscaling = overscaling',
       tree_x = coord_x coord', tree_y = coord_y coord',
       tree_z = real_of_int (coord_z coord') - ln overscaling' / ln 2,
       collisionTile = ct, vtLayers = None\<rparr>)"
| "FeatureTree_new (FromCoord coord' overscaling') ct =
     \<lparr>grid = Grid_new 16 EXTENT 0,
      featureIndexArray = [],
      rawTileData = None,
      bucketLayerIDs = None,
      coord = coord', overscaling = overscaling',
      tree_x = coord_x coord', tree_y = coord_y coord',
      tree_z = real_of_int (coord_z coord') - ln overscaling' / ln 2,
      collisionTile = ct, vtLayers = None\<rparr>"

text \<open>
  \<^verbatim>\<open>FeatureTree.prototype.insert(feature, featureIndex, sourceLayerIndex, bucketIndex)\<close>;
  the geometry is the result of \<open>loadGeometry(feature)\<close>. Every ring is inserted into the
  grid under the same key, the position of the feature's record.
\<close>

definition ringBBox :: "(int \<times> int) list \<Rightarrow> bbox" where
  "ringBBox ring =
     fold (\<lambda>p (b0, b1, b2, b3).
             (Math_min b0 (fst p), Math_min b1 (snd p), Math_max b2 (fst p), Math_max b3 (snd p)))
       ring (PlusInfinity, PlusInfinity, MinusInfinity, MinusInfinity)"

definition insert_feature ::
    "(int \<times> int) list list \<Rightarrow> nat \<Rightarrow> nat \<Rightarrow> nat \<Rightarrow>
     ('raw, 'ct, 'ids, 'vt) FeatureTree \<Rightarrow> ('raw, 'ct, 'ids, 'vt) FeatureTree" where
  "insert_feature geometry fi sli bi this =
     (let key = length (featureIndexArray this);
          this1 = this\<lparr>featureIndexArray := emplaceBack fi sli bi (featureIndexArray this)\<rparr>
      in fold (\<lambda>ring t. t\<lparr>grid := Grid_insert key (ringBBox ring) (grid t)\<rparr>) geometry this1)"

text \<open>
  \<^verbatim>\<open>FeatureTree.prototype.serialize\<close>: the \<open>data\<close> it returns (the transferables are the two
  buffers of \<open>data\<close>).
\<close>

definition serialize :: "('raw, 'ct, 'ids, 'vt) FeatureTree \<Rightarrow> 'ids Serialized" where
  "serialize this =
     \<lparr>ser_coord = coord this,
      ser_overscaling = overscaling this,
      ser_grid = toArrayBuffer (grid this),
      ser_featureIndexArray = FeatureIndexArray_serialize (featureIndexArray this),
      ser_bucketLayerIDs = bucketLayerIDs this\<rparr>"

text \<open>
  The first statement of \<open>query\<close>: \<^verbatim>\<open>if (!this.vtLayers) { this.vtLayers = ... }\<close>. The
  decoder of the raw tile (the vector-tile and pbf packages) is a parameter.
\<close>

definition materialize ::
    "('raw option \<Rightarrow> 'vt) \<Rightarrow> ('raw, 'ct, 'ids, 'vt) FeatureTree \<Rightarrow> ('raw, 'ct, 'ids, 'vt) FeatureTree" where
  "materialize decode this =
     (if vtLayers this = None then this\<lparr>vtLayers := Some (decode (rawTileData this))\<rparr>
      else this)"


text \<open>
  What \<open>query\<close> and \<open>filterMatching\<close> read of the tree after that statement: the grid, the
  feature index array, the bucket layer ids, the decoded layers, the collision tile and
  the tile's \<open>x\<close>, \<open>y\<close>, \<open>z\<close>. A query is a function of this state and of its arguments.
  \<open>insertAll\<close> is a sequence of \<open>insert\<close> calls.
\<close>

definition queryState ::
    "('raw, 'ct, 'ids, 'vt) FeatureTree \<Rightarrow>
     Grid \<times> FeatureIndex list \<times> 'ids option \<times> 'raw option \<times> 'vt option \<times> 'ct option
       \<times> int \<times> int \<times> real" where
  "queryState this =
     (grid this, featureIndexArray this, bucketLayerIDs this, rawTileData this, vtLayers this,
      collisionTile this, tree_x this, tree_y this, tree_z this)"

definition insertAll ::
    "((int \<times> int) list list \<times> nat \<times> nat \<times> nat) list \<Rightarrow>
     ('raw, 'ct, 'ids, 'vt) FeatureTree \<Rightarrow> ('raw, 'ct, 'ids, 'vt) FeatureTree" where
  "insertAll inserts this =
     fold (\<lambda>(geometry, fi, sli, bi). insert_feature geometry fi sli bi) inserts this"

text \<open>
  What the constructor establishes and \<open>insert\<close> keeps: \<open>x\<close>, \<open>y\<close> and \<open>z\<close> are the ones
  computed from \<open>coord\<close> and \<open>overscaling\<close>.
\<close>

definition coherent :: "('raw, 'ct, 'ids, 'vt) FeatureTree \<Rightarrow> bool" where
  "coherent this \<longleftrightarrow>
     tree_x this = coord_x (coord this) \<and> tree_y this = coord_y (coord this)
     \<and> tree_z this = real_of_int (coord_z (coord this)) - ln (overscaling this) / ln 2"

section \<open>Properties of the geometry primitives\<close>

lemma number_sub_self:
  "finiteNumber x \<Longrightarrow> number_sub x x = Number False 0"
  by (cases x) (simp_all add: number_sub_def signed_def)

lemmas number_eval =
  round_double_def ilog2_def pow2_def roundTiesToEven_def bitLength.simps Let_def signed_def
  number_sub_def num_def distSqr_def point_add_def point_mult_def point_sub_def

lemma round_double_zero [simp]: "round_double s 0 = Number s 0"
  by (simp add: round_double_def)

lemma distSqr_self:
  "finitePoint v \<Longrightarrow> distSqr v v = Number False 0"
  by (simp add: distSqr_def finitePoint_def number_sub_self signed_def)

text \<open>
  Claim C10. The point-to-segment squared distance is total: the checked body always
  returns a value (the division is never reached with a zero divisor, whatever the
  numbers are) and that value is the one of \<open>distToSegmentSquared\<close>. Whenever the computed
  squared length of the segment is zero the result is the squared distance from \<open>p\<close> to
  \<open>v\<close>; this is so on a zero-length segment \<open>v = w\<close> with finite coordinates.
\<close>

theorem distToSegmentSquared_total:
  "distToSegmentSquared_checked p v w = Some (distToSegmentSquared p v w)
   \<and> (number_eq (distSqr v w) (Number False 0) \<longrightarrow>
        distToSegmentSquared_checked p v w = Some (distSqr p v)
        \<and> distToSegmentSquared p v w = distSqr p v)
   \<and> (finitePoint v \<longrightarrow>
        distToSegmentSquared_checked p v v = Some (distSqr p v)
        \<and> distToSegmentSquared p v v = distSqr p v)"
proof -
  have a: "distToSegmentSquared_checked p v w = Some (distToSegmentSquared p v w)"
    by (simp add: distToSegmentSquared_checked_def distToSegmentSquared_def
        checked_div_def Let_def)
  have b: "number_eq (distSqr v w) (Number False 0) \<longrightarrow>
        distToSegmentSquared_checked p v w = Some (distSqr p v)
        \<and> distToSegmentSquared p v w = distSqr p v"
    by (simp add: distToSegmentSquared_checked_def distToSegmentSquared_def Let_def)
  have c: "finitePoint v \<longrightarrow>
        distToSegmentSquared_checked p v v = Some (distSqr p v)
        \<and> distToSegmentSquared p v v = distSqr p v"
    by (simp add: distToSegmentSquared_checked_def distToSegmentSquared_def Let_def
        distSqr_self signed_def)
  from a b c show ?thesis by (intro conjI)
qed

theorem distToSegmentSquared_total_witness:
  "finitePoint (Point (Number False 3) (Number False 4))
   \<and> number_eq (distSqr (Point (Number False 3) (Number False 4))
        (Point (Number False 3) (Number False 4))) (Number False 0)
   \<and> distToSegmentSquared_checked (Point (Number False 0) (Number False 0))
        (Point (Number False 3) (Number False 4)) (Point (Number False 3) (Number False 4))
      = Some (Number False 25)
   \<and> distToSegmentSquared (Point (Number False 0) (Number False 0))
        (Point (Number False 3) (Number False 4)) (Point (Number False 3) (Number False 4))
      = Number False 25"
proof -
  define p where "p = Point (Number False 0) (Number False 0)"
  define v where "v = Point (Number False 3) (Number False 4)"
  have f: "finitePoint v"
    by (simp add: v_def finitePoint_def)
  have z: "number_eq (distSqr v v) (Number False 0)"
    unfolding v_def by (simp add: number_eval)
  have d: "distSqr p v = Number False 25"
    unfolding p_def v_def by (simp add: number_eval)
  note inst = distToSegmentSquared_total [of p v v]
  from inst [THEN conjunct2, THEN conjunct2, THEN mp, OF f]
  have 1: "distToSegmentSquared_checked p v v = Some (Number False 25)
      \<and> distToSegmentSquared p v v = Number False 25"
    by (simp only: d)
  from inst [THEN conjunct2, THEN conjunct1, THEN mp, OF z]
  have 2: "distToSegmentSquared p v v = Number False 25"
    by (simp only: d)
  from f z 1 have "finitePoint v \<and> number_eq (distSqr v v) (Number False 0)
      \<and> distToSegmentSquared_checked p v v = Some (Number False 25)
      \<and> distToSegmentSquared p v v = Number False 25"
    by (intro conjI) simp_all
  then show ?thesis
    unfolding p_def v_def .
qed



subsection \<open>Rounding is exact on the integers up to \<open>2^53\<close>\<close>











subsection \<open>The exact squared distance\<close>

lemma exact_distSqr_zero_iff: "exact_distSqr v w = 0 \<longleftrightarrow> v = w"
proof (cases v; cases w)
  fix a b c d
  assume v: "v = ExactPoint a b" and w: "w = ExactPoint c d"
  have "(c - a) * (c - a) + (d - b) * (d - b) = 0 \<longleftrightarrow> c - a = 0 \<and> d - b = 0"
    by (rule sum_squares_eq_zero_iff)
  then show ?thesis
    by (auto simp: v w exact_distSqr_def Let_def)
qed

lemma exact_dist_expand:
  "exact_distSqr p (exact_segmentPoint v w t) =
     exact_distSqr p v
       - 2 * t * ((ex p - ex v) * (ex w - ex v) + (ey p - ey v) * (ey w - ey v))
       + t * t * exact_distSqr v w"
  by (cases p; cases v; cases w)
     (simp add: exact_distSqr_def exact_segmentPoint_def Let_def algebra_simps)

lemma exact_segmentPoint_ends [simp]:
  "exact_segmentPoint v w 0 = v" "exact_segmentPoint v w 1 = w"
  by (cases v; cases w; simp add: exact_segmentPoint_def)+

lemma exact_distToSegmentSquared_least:
  assumes t: "0 \<le> t" "t \<le> 1"
  shows "exact_distToSegmentSquared p v w \<le> exact_distSqr p (exact_segmentPoint v w t)"
proof -
  define N where "N = (ex p - ex v) * (ex w - ex v) + (ey p - ey v) * (ey w - ey v)"
  define l2 where "l2 = exact_distSqr v w"
  define D where "D = exact_distSqr p v"
  have l2_nonneg: "0 \<le> l2"
    by (simp add: l2_def exact_distSqr_def Let_def)
  have ex: "\<And>s. exact_distSqr p (exact_segmentPoint v w s) = D - 2 * s * N + s * s * l2"
    by (simp add: exact_dist_expand N_def l2_def D_def)
  show ?thesis
  proof (cases "l2 = 0")
    case True
    then have "v = w" by (simp add: l2_def exact_distSqr_zero_iff)
    then have "N = 0" by (simp add: N_def)
    with True ex [of t] have "exact_distSqr p (exact_segmentPoint v w t) = D" by simp
    moreover from True have "exact_distToSegmentSquared p v w = D"
      by (simp add: exact_distToSegmentSquared_def l2_def D_def)
    ultimately show ?thesis by simp
  next
    case False
    with l2_nonneg have pos: "0 < l2" by simp
    define t0 where "t0 = N / l2"
    have N: "N = t0 * l2" using pos by (simp add: t0_def)
    have val: "exact_distToSegmentSquared p v w =
        (if t0 < 0 then D else if t0 > 1 then exact_distSqr p w
         else exact_distSqr p (exact_segmentPoint v w t0))"
      using False
      by (simp add: exact_distToSegmentSquared_def Let_def l2_def [symmetric] N_def [symmetric]
          t0_def D_def)
    consider "t0 < 0" | "1 < t0" | "0 \<le> t0" "t0 \<le> 1" by linarith
    then show ?thesis
    proof cases
      case 1
      have "0 \<le> t * (- t0) * l2" using t 1 pos by (intro mult_nonneg_nonneg) simp_all
      moreover have "0 \<le> t * t * l2" using t pos by (intro mult_nonneg_nonneg) simp_all
      ultimately have "D \<le> D - 2 * t * N + t * t * l2" by (simp add: N algebra_simps)
      with 1 val ex [of t] show ?thesis by simp
    next
      case 2
      have w: "exact_distSqr p w = D - 2 * N + l2" using ex [of 1] by simp
      have "(D - 2 * t * N + t * t * l2) - (D - 2 * N + l2) = (1 - t) * l2 * (2 * t0 - (1 + t))"
        by (simp add: N algebra_simps)
      moreover have "0 \<le> (1 - t) * l2 * (2 * t0 - (1 + t))"
        using t 2 pos by (intro mult_nonneg_nonneg) simp_all
      ultimately have "D - 2 * N + l2 \<le> D - 2 * t * N + t * t * l2" by linarith
      with 2 val ex [of t] w show ?thesis by simp
    next
      case 3
      have "(D - 2 * t * N + t * t * l2) - (D - 2 * t0 * N + t0 * t0 * l2)
          = l2 * ((t - t0) * (t - t0))"
        by (simp add: N algebra_simps)
      moreover have "0 \<le> l2 * ((t - t0) * (t - t0))"
        using pos by (simp add: zero_le_mult_iff)
      ultimately have "D - 2 * t0 * N + t0 * t0 * l2 \<le> D - 2 * t * N + t * t * l2" by linarith
      with 3 val ex [of t] ex [of t0] show ?thesis by simp
    qed
  qed
qed

lemma exact_distToSegmentSquared_attained:
  "\<exists>t. 0 \<le> t \<and> t \<le> 1 \<and>
     exact_distToSegmentSquared p v w = exact_distSqr p (exact_segmentPoint v w t)"
proof -
  define t0 where
    "t0 = ((ex p - ex v) * (ex w - ex v) + (ey p - ey v) * (ey w - ey v)) / exact_distSqr v w"
  consider "exact_distSqr v w = 0 \<or> t0 < 0" | "exact_distSqr v w \<noteq> 0" "1 < t0"
    | "exact_distSqr v w \<noteq> 0" "0 \<le> t0" "t0 \<le> 1"
    by linarith
  then show ?thesis
  proof cases
    case 1
    then have "exact_distToSegmentSquared p v w = exact_distSqr p (exact_segmentPoint v w 0)"
      by (auto simp: exact_distToSegmentSquared_def Let_def t0_def)
    then show ?thesis by (intro exI [of _ 0]) simp
  next
    case 2
    then have "exact_distToSegmentSquared p v w = exact_distSqr p (exact_segmentPoint v w 1)"
      by (simp add: exact_distToSegmentSquared_def Let_def t0_def)
    then show ?thesis by (intro exI [of _ 1]) simp
  next
    case 3
    then have "exact_distToSegmentSquared p v w = exact_distSqr p (exact_segmentPoint v w t0)"
      by (simp add: exact_distToSegmentSquared_def Let_def t0_def)
    with 3 show ?thesis by (intro exI [of _ t0]) simp
  qed
qed

subsection \<open>Rounding in the normal range\<close>


lemma pow2_nonneg_exp: "0 \<le> e \<Longrightarrow> pow2 e = 2 ^ nat e"
  by (simp add: pow2_def)












subsection \<open>Integers as numbers\<close>




lemma isInt_signed:
  "isInt (Number s a) i \<Longrightarrow> signed s a = of_int i"
  by (auto simp: signed_def)



lemma number_lt_isInt:
  "isInt x i \<Longrightarrow> isInt y j \<Longrightarrow> number_lt x y \<longleftrightarrow> i < j"
  by (cases x; cases y) (simp_all add: isInt_signed)








lemma number_lt_zero: "number_lt (Number s a) (Number False 0) \<longleftrightarrow> signed s a < 0"
  by (simp add: signed_def)

lemma number_lt_one: "number_lt (Number False 1) (Number s a) \<longleftrightarrow> 1 < signed s a"
  by (simp add: signed_def)







section \<open>Properties of the binary-search fast path\<close>

lemma featuresFind_loop_returns:
  "low \<le> high \<Longrightarrow>
     \<exists>r. featuresFind_loop layer findKey low high = Some r \<and> low \<le> r \<and> r \<le> high"
proof (induction "high - low" arbitrary: low high rule: less_induct)
  case less
  show ?case
  proof (cases "low = high")
    case True
    then show ?thesis by (subst featuresFind_loop.simps) simp
  next
    case False
    with less.prems have lt: "low < high" by simp
    define mid where "mid = (low + high) div 2"
    have m: "low \<le> mid" "mid < high" using lt by (simp_all add: mid_def)
    have up: "\<exists>r. featuresFind_loop layer findKey (mid + 1) high = Some r
                 \<and> mid + 1 \<le> r \<and> r \<le> high"
      using m by (intro less.hyps) simp_all
    have down: "\<exists>r. featuresFind_loop layer findKey low mid = Some r \<and> low \<le> r \<and> r \<le> mid"
      using m by (intro less.hyps) simp_all
    show ?thesis
      using up down m False
      by (subst featuresFind_loop.simps) (auto simp: Let_def mid_def [symmetric])
  qed
qed

lemma featuresFind_returns:
  "\<exists>r. featuresFind layer color time = Some r \<and> toNumber r \<le> length layer"
proof -
  obtain low where "featuresFind_loop layer (time + color * COLOR_OFFSET) 0 (length layer)
      = Some low" "low \<le> length layer"
    using featuresFind_loop_returns [of 0 "length layer" layer "time + color * COLOR_OFFSET"]
    by auto
  then show ?thesis by (simp add: featuresFind_def)
qed

lemma featuresSlice_loop_take_drop:
  "n + b \<le> length layer \<Longrightarrow>
     featuresSlice_loop layer b n acc = Inr (take n (drop b layer) @ acc)"
proof (induction n arbitrary: acc)
  case 0
  then show ?case by simp
next
  case (Suc n)
  then have "take (Suc n) (drop b layer) = take n (drop b layer) @ [layer ! (n + b)]"
    by (simp add: take_Suc_conv_app_nth add.commute)
  with Suc show ?case by simp
qed

text \<open>
  Where the start index is found and is not \<open>0\<close>, and no end index is found, the bucket
  receives the features from the start index through the end of the layer.
\<close>

lemma binarySearchFeatures_fallback:
  assumes "featuresFind layer (colorIdx fv) (startTime fv) = Some (Index s)"
    and "featuresFind layer (colorIdx fv) (endTime fv) = Some Null"
    and "0 < s"
  shows "binarySearchFeatures layer fv = Some (Inr (drop s layer))"
proof -
  from featuresFind_returns [of layer "colorIdx fv" "startTime fv"] assms(1)
  have s: "s \<le> length layer" by simp
  then have "featuresSlice_loop layer s (length layer - s) [] =
      Inr (take (length layer - s) (drop s layer) @ [])"
    by (intro featuresSlice_loop_take_drop) simp
  with s assms show ?thesis
    by (simp add: binarySearchFeatures_def featuresSlice_def nat_diff_distrib' of_nat_diff)
qed

text \<open>
  Claim C9. The fallback \<open>endIdx = layer.length\<close> is guarded by \<^verbatim>\<open>startIdx && !endIdx\<close>,
  which reads the start index \<open>0\<close> as "not found". On the one-feature layer below, with
  the filter \<open>c = 0\<close>, \<open>0 \<le> d < 10\<close>, \<open>featuresFind\<close> returns the start index \<open>0\<close> and the
  end index \<open>null\<close>, and the bucket receives no feature instead of the features from the
  start index through the end of the layer.
\<close>

theorem binarySearchFeatures_start_zero:
  "featuresFind [Feature 7 0 5] 0 0 = Some (Index 0)
   \<and> featuresFind [Feature 7 0 5] 0 10 = Some Null
   \<and> binarySearchFeatures [Feature 7 0 5] \<lparr>colorIdx = 0, startTime = 0, endTime = 10\<rparr>
       = Some (Inr [])
   \<and> binarySearchFeatures [Feature 7 0 5] \<lparr>colorIdx = 0, startTime = 0, endTime = 10\<rparr>
       \<noteq> Some (Inr (drop 0 [Feature 7 0 5]))"
proof -
  have s: "featuresFind [Feature 7 0 5] 0 0 = Some (Index 0)"
    by (simp add: featuresFind_def featuresFind_loop.simps COLOR_OFFSET_def)
  have e: "featuresFind [Feature 7 0 5] 0 10 = Some Null"
    by (simp add: featuresFind_def featuresFind_loop.simps COLOR_OFFSET_def)
  have r: "binarySearchFeatures [Feature 7 0 5] \<lparr>colorIdx = 0, startTime = 0, endTime = 10\<rparr>
       = Some (Inr [])"
    by (simp add: binarySearchFeatures_def s e featuresSlice_def)
  from s e r show ?thesis by simp
qed


section \<open>Properties of buckets and element groups\<close>

lemma js_bind_Inr_iff:
  "js_bind m f = Inr r \<longleftrightarrow> (\<exists>v. m = Inr v \<and> f v = Inr r)"
  by (cases m) (simp_all add: js_bind_def)

lemma js_bind_Inr [simp]: "js_bind (Inr v) f = f v"
  by (simp add: js_bind_def)

lemma js_bind_Inl [simp]: "js_bind (Inl e) f = Inl e"
  by (simp add: js_bind_def)

lemma capitalize_names:
  "capitalize ''vertex'' = ''Vertex''"
  "capitalize ''element'' = ''Element''"
  "capitalize ''secondElement'' = ''SecondElement''"
  by code_simp+

lemma getBufferName_simps:
  "getBufferName shaderName ''vertex'' = shaderName @ ''Vertex''"
  "getBufferName shaderName ''element'' = shaderName @ ''Element''"
  "getBufferName shaderName ''secondElement'' = shaderName @ ''SecondElement''"
  by (simp_all only: getBufferName_def capitalize_names)

lemma makeRoomFor_has_room:
  assumes "elementGroups this shaderName = Some groups" "groups \<noteq> []"
    "vertexLength (last groups) + numVertices \<le> 65535"
  shows "makeRoomFor shaderName numVertices this = Inr (last groups, this)"
  using assms by (simp add: makeRoomFor_def)

lemma makeRoomFor_no_room:
  assumes "elementGroups this shaderName = Some groups"
    "groups = [] \<or> 65535 < vertexLength (last groups) + numVertices"
    "buffers this (getBufferName shaderName ''vertex'') = Some vb"
  shows "\<exists>g. makeRoomFor shaderName numVertices this =
           Inr (g, this\<lparr>elementGroups := (elementGroups this)(shaderName \<mapsto> groups @ [g])\<rparr>)
         \<and> vertexLength g = 0 \<and> elementLength g = 0 \<and> secondElementLength g = 0
         \<and> vertexStartIndex g = length (items vb)
         \<and> elementStartIndex g =
             map_option (\<lambda>b. length (items b)) (buffers this (getBufferName shaderName ''element''))
         \<and> secondElementStartIndex g =
             map_option (\<lambda>b. length (items b))
               (buffers this (getBufferName shaderName ''secondElement''))"
  using assms by (auto simp: makeRoomFor_def Let_def)

lemma makeRoomFor_result:
  assumes "makeRoomFor shaderName n this = Inr (grp, this')"
  shows "\<exists>groups groups'. elementGroups this shaderName = Some groups
           \<and> elementGroups this' = (elementGroups this)(shaderName \<mapsto> groups')
           \<and> buffers this' = buffers this
           \<and> groups' \<noteq> [] \<and> last groups' = grp
           \<and> ((groups' = groups \<and> vertexLength grp + n \<le> 65535)
                \<or> (groups' = groups @ [grp] \<and> vertexLength grp = 0))"
proof -
  from assms obtain groups where gs: "elementGroups this shaderName = Some groups"
    by (auto simp: makeRoomFor_def split: option.splits)
  show ?thesis
  proof (cases "groups = [] \<or> 65535 < vertexLength (last groups) + n")
    case True
    with assms gs obtain vb where vb: "buffers this (getBufferName shaderName ''vertex'') = Some vb"
      by (auto simp: makeRoomFor_def split: option.splits)
    from makeRoomFor_no_room [OF gs True vb] assms
    have "this' = this\<lparr>elementGroups := (elementGroups this)(shaderName \<mapsto> groups @ [grp])\<rparr>"
      "vertexLength grp = 0"
      by auto
    with gs show ?thesis
      by (intro exI [of _ groups] exI [of _ "groups @ [grp]"]) simp
  next
    case False
    with makeRoomFor_has_room [OF gs, of n] assms
    have "grp = last groups" "this' = this" by auto
    with gs False show ?thesis
      by (intro exI [of _ groups]) (simp add: fun_upd_idem)
  qed
qed

lemma push_elementGroups:
  "push bufferName item this = Inr (i, this') \<Longrightarrow> elementGroups this' = elementGroups this"
  by (auto simp: push_def split: option.splits)

lemma pushAll_elementGroups:
  "pushAll bufferName vs this = Inr this' \<Longrightarrow> elementGroups this' = elementGroups this"
proof (induction vs arbitrary: this)
  case Nil
  then show ?case by simp
next
  case (Cons v vs)
  then show ?case
    by (auto simp: js_bind_Inr_iff dest: push_elementGroups)
qed

lemma groupsWithinLimit_addVertices:
  assumes inv: "groupsWithinLimit this" and n: "length vs \<le> 65535"
    and run: "addVertices shaderName vs this = Inr this'"
  shows "groupsWithinLimit this'"
proof -
  from run obtain grp this1 this2 where
    m: "makeRoomFor shaderName (length vs) this = Inr (grp, this1)" and
    p: "pushAll (getBufferName shaderName ''vertex'') vs this1 = Inr this2" and
    u: "this' = updateGroup shaderName
              (\<lambda>g. g\<lparr>vertexLength := vertexLength g + length vs\<rparr>) this2"
    by (auto simp: addVertices_def js_bind_Inr_iff)
  from makeRoomFor_result [OF m] obtain groups groups' where
    g0: "elementGroups this shaderName = Some groups"
      "elementGroups this1 = (elementGroups this)(shaderName \<mapsto> groups')"
      "groups' \<noteq> []" "last groups' = grp"
      "(groups' = groups \<and> vertexLength grp + length vs \<le> 65535)
         \<or> (groups' = groups @ [grp] \<and> vertexLength grp = 0)"
    by blast
  from g0(5) n have g4: "vertexLength grp + length vs \<le> 65535" by auto
  from g0(5) have g6: "groups' = groups \<or> (groups' = groups @ [grp] \<and> vertexLength grp = 0)"
    by blast
  note g = g0(2) g0(3) g0(4) g4 g0(1) g6
  from inv g(5) have old: "\<forall>g \<in> set groups. vertexLength g \<le> 65535"
    by (simp add: groupsWithinLimit_def)
  from g(2,6) have bl: "set (butlast groups') \<subseteq> set groups"
    by (auto dest: in_set_butlastD)
  from pushAll_elementGroups [OF p] g(1)
  have e2: "elementGroups this2 = (elementGroups this)(shaderName \<mapsto> groups')" by simp
  have e': "elementGroups this' = (elementGroups this)(shaderName \<mapsto>
      butlast groups' @ [grp\<lparr>vertexLength := vertexLength grp + length vs\<rparr>])"
    using e2 g(3) by (simp add: u updateGroup_def)
  show ?thesis
    unfolding groupsWithinLimit_def
  proof (intro allI impI ballI)
    fix name gs x
    assume a: "elementGroups this' name = Some gs" and x: "x \<in> set gs"
    show "vertexLength x \<le> 65535"
    proof (cases "name = shaderName")
      case True
      with a e' have "gs = butlast groups' @ [grp\<lparr>vertexLength := vertexLength grp + length vs\<rparr>]"
        by simp
      with x bl old g(4) show ?thesis by auto
    next
      case False
      with a e' have "elementGroups this name = Some gs" by simp
      with inv x show ?thesis by (auto simp: groupsWithinLimit_def)
    qed
  qed
qed

lemma groupsWithinLimit_addVerticesAll:
  assumes "groupsWithinLimit this" "\<forall>call \<in> set calls. length (snd call) \<le> 65535"
    "addVerticesAll calls this = Inr this'"
  shows "groupsWithinLimit this'"
  using assms
proof (induction calls arbitrary: this)
  case Nil
  then show ?case by simp
next
  case (Cons call calls)
  from Cons.prems(3) obtain this1 where
    1: "addVertices (fst call) (snd call) this = Inr this1" and
    2: "addVerticesAll calls this1 = Inr this'"
    by (auto simp: js_bind_Inr_iff)
  from Cons.prems(2) have "length (snd call) \<le> 65535" by simp
  from groupsWithinLimit_addVertices [OF Cons.prems(1) this 1]
  have "groupsWithinLimit this1" .
  with Cons.IH [of this1] Cons.prems(2) 2 show ?case by simp
qed

lemma createBuffers_step_groups:
  "elementGroups (createBuffers_step entry this) = (elementGroups this)(fst entry \<mapsto> [])"
  by (simp add: createBuffers_step_def Let_def)

lemma fold_createBuffers_groups:
  "(\<forall>name groups. elementGroups this name = Some groups \<longrightarrow> groups = []) \<Longrightarrow>
   elementGroups (fold createBuffers_step shaderInterfaces this) name = Some groups \<Longrightarrow> groups = []"
proof (induction shaderInterfaces arbitrary: this)
  case Nil
  then show ?case by simp
next
  case (Cons entry rest)
  have "\<forall>name groups. elementGroups (createBuffers_step entry this) name = Some groups \<longrightarrow> groups = []"
    using Cons.prems(1) by (auto simp: createBuffers_step_groups)
  with Cons.IH [of "createBuffers_step entry this"] Cons.prems(2) show ?case by simp
qed

lemma groupsWithinLimit_createBuffers:
  "groupsWithinLimit (createBuffers shaderInterfaces this)"
  unfolding groupsWithinLimit_def
proof (intro allI impI ballI)
  fix name groups g
  assume a: "elementGroups (createBuffers shaderInterfaces this) name = Some groups"
    and g: "g \<in> set groups"
  have "\<forall>name groups.
      elementGroups (this\<lparr>elementGroups := Map.empty, buffers := Map.empty\<rparr>) name = Some groups
        \<longrightarrow> groups = []"
    by simp
  from fold_createBuffers_groups [OF this] a have "groups = []"
    unfolding createBuffers_def by blast
  with g show "vertexLength g \<le> 65535" by simp
qed


lemma pushAll_append:
  "buffers this bufferName = Some buffer \<Longrightarrow>
   pushAll bufferName vs this =
     Inr (this\<lparr>buffers := (buffers this)(bufferName \<mapsto> buffer\<lparr>items := items buffer @ vs\<rparr>)\<rparr>)"
proof (induction vs arbitrary: this buffer)
  case Nil
  then show ?case by (simp add: fun_upd_idem)
next
  case (Cons v vs)
  have "pushAll bufferName vs
          (this\<lparr>buffers := (buffers this)(bufferName \<mapsto> buffer\<lparr>items := items buffer @ [v]\<rparr>)\<rparr>)
        = Inr (this\<lparr>buffers := (buffers this)(bufferName \<mapsto> buffer\<lparr>items := items buffer @ [v]\<rparr>)\<rparr>
               \<lparr>buffers := (buffers (this\<lparr>buffers := (buffers this)(bufferName \<mapsto> buffer\<lparr>items := items buffer @ [v]\<rparr>)\<rparr>))
                    (bufferName \<mapsto> (buffer\<lparr>items := items buffer @ [v]\<rparr>)\<lparr>items := items (buffer\<lparr>items := items buffer @ [v]\<rparr>) @ vs\<rparr>)\<rparr>)"
    by (rule Cons.IH) simp
  with Cons.prems show ?case by (simp add: push_def) (simp add: fun_upd_def)
qed

lemma addVertices_succeeds:
  assumes "elementGroups this shaderName = Some groups"
    and "buffers this (getBufferName shaderName ''vertex'') = Some vb"
  shows "\<exists>this'. addVertices shaderName vs this = Inr this'
           \<and> dom (elementGroups this') = dom (elementGroups this)
           \<and> dom (buffers this') = dom (buffers this)"
proof -
  obtain grp this1 where m: "makeRoomFor shaderName (length vs) this = Inr (grp, this1)"
    using assms
    by (cases "groups = [] \<or> 65535 < vertexLength (last groups) + length vs")
       (auto simp: makeRoomFor_def Let_def)
  from makeRoomFor_result [OF m] assms(1) obtain groups' where
    r: "elementGroups this1 = (elementGroups this)(shaderName \<mapsto> groups')"
       "buffers this1 = buffers this"
    by blast
  from r(2) assms(2) have vb1: "buffers this1 (getBufferName shaderName ''vertex'') = Some vb"
    by simp
  show ?thesis
    using assms r
    by (auto simp: addVertices_def m pushAll_append [OF vb1] updateGroup_def)
qed

lemma addVerticesAll_succeeds:
  assumes "\<forall>call \<in> set calls. fst call \<in> dom (elementGroups this)
             \<and> getBufferName (fst call) ''vertex'' \<in> dom (buffers this)"
  shows "\<exists>this'. addVerticesAll calls this = Inr this'"
  using assms
proof (induction calls arbitrary: this)
  case Nil
  then show ?case by simp
next
  case (Cons call calls)
  from Cons.prems obtain groups vb where
    "elementGroups this (fst call) = Some groups"
    "buffers this (getBufferName (fst call) ''vertex'') = Some vb"
    by auto
  from addVertices_succeeds [OF this, of "snd call"] obtain this1 where
    1: "addVertices (fst call) (snd call) this = Inr this1"
       "dom (elementGroups this1) = dom (elementGroups this)"
       "dom (buffers this1) = dom (buffers this)"
    by blast
  with Cons.prems have "\<forall>call \<in> set calls. fst call \<in> dom (elementGroups this1)
             \<and> getBufferName (fst call) ''vertex'' \<in> dom (buffers this1)"
    by simp
  from Cons.IH [OF this] 1(1) show ?case by simp
qed

text \<open>
  Claim C1. For every bucket and every sequence of calls, each of which asks \<open>makeRoomFor\<close>
  for room for \<open>n \<le> 65535\<close> vertices under some shader name and then adds the \<open>n\<close>
  vertices to the group returned: if no element group had more than 65535 vertices
  before, none has after (and after \<open>createBuffers\<close> none has); the sequence runs without
  an error when every shader name called has a group list and a vertex buffer.
  \<open>makeRoomFor\<close> returns the last group, and leaves the bucket as it is, when that group has
  room for \<open>numVertices\<close> more; otherwise it appends a group with \<open>vertexLength = 0\<close> whose
  start indices are the current lengths of the shader's buffers.
\<close>

theorem makeRoomFor_vertexLength_limit:
  "(groupsWithinLimit this \<and> (\<forall>call \<in> set calls. length (snd call) \<le> 65535)
      \<and> addVerticesAll calls this = Inr this' \<longrightarrow> groupsWithinLimit this')
   \<and> ((\<forall>call \<in> set calls. fst call \<in> dom (elementGroups this)
             \<and> getBufferName (fst call) ''vertex'' \<in> dom (buffers this))
        \<longrightarrow> (\<exists>this'. addVerticesAll calls this = Inr this'))
   \<and> groupsWithinLimit (createBuffers shaderInterfaces bucket)
   \<and> (elementGroups this shaderName = Some groups \<and> groups \<noteq> []
        \<and> vertexLength (last groups) + numVertices \<le> 65535
      \<longrightarrow> makeRoomFor shaderName numVertices this = Inr (last groups, this))
   \<and> (elementGroups this shaderName = Some groups
        \<and> (groups = [] \<or> 65535 < vertexLength (last groups) + numVertices)
        \<and> buffers this (getBufferName shaderName ''vertex'') = Some vb
      \<longrightarrow> (\<exists>g. makeRoomFor shaderName numVertices this =
             Inr (g, this\<lparr>elementGroups := (elementGroups this)(shaderName \<mapsto> groups @ [g])\<rparr>)
           \<and> vertexLength g = 0 \<and> elementLength g = 0 \<and> secondElementLength g = 0
           \<and> vertexStartIndex g = length (items vb)
           \<and> elementStartIndex g =
               map_option (\<lambda>b. length (items b))
                 (buffers this (getBufferName shaderName ''element''))
           \<and> secondElementStartIndex g =
               map_option (\<lambda>b. length (items b))
                 (buffers this (getBufferName shaderName ''secondElement''))))"
  using groupsWithinLimit_addVerticesAll [of this calls this']
    addVerticesAll_succeeds [of calls this]
    groupsWithinLimit_createBuffers [of shaderInterfaces bucket]
    makeRoomFor_has_room [of this shaderName groups numVertices]
    makeRoomFor_no_room [of this shaderName groups numVertices vb]
  by blast

theorem makeRoomFor_vertexLength_limit_witness:
  "\<exists>this'. addVerticesAll [(''circle'', replicate 65535 ()), (''circle'', [()])]
        (createBuffers
          [(''circle'', \<lparr>vertexBuffer = True, elementBuffer = True, secondElementBuffer = False,
              vertexItemSize = 4, elementItemSize = 6, secondElementItemSize = 0\<rparr>)]
          \<lparr>elementGroups = Map.empty, buffers = Map.empty\<rparr>) = Inr this'
     \<and> groupsWithinLimit this'
     \<and> map_option (map vertexLength) (elementGroups this' ''circle'') = Some [65535, 1]
     \<and> map_option (map vertexStartIndex) (elementGroups this' ''circle'') = Some [0, 65535]"
proof -
  define start :: "unit Bucket" where "start = createBuffers
          [(''circle'', \<lparr>vertexBuffer = True, elementBuffer = True, secondElementBuffer = False,
              vertexItemSize = 4, elementItemSize = 6, secondElementItemSize = 0\<rparr>)]
          \<lparr>elementGroups = Map.empty, buffers = Map.empty\<rparr>"
  define calls :: "(string \<times> unit list) list"
    where "calls = [(''circle'', replicate 65535 ()), (''circle'', [()])]"
  have s: "start = \<lparr>elementGroups = [''circle'' \<mapsto> []],
      buffers = [''circleVertex'' \<mapsto> \<lparr>items = [], itemSize = 4\<rparr>,
                 ''circleElement'' \<mapsto> \<lparr>items = [], itemSize = 6\<rparr>]\<rparr>"
    by (simp add: start_def createBuffers_def createBuffers_step_def getBufferName_simps)
  have "\<exists>this'. addVerticesAll calls start = Inr this'
     \<and> map_option (map vertexLength) (elementGroups this' ''circle'') = Some [65535, 1]
     \<and> map_option (map vertexStartIndex) (elementGroups this' ''circle'') = Some [0, 65535]"
    by (simp add: calls_def s addVertices_def makeRoomFor_def getBufferName_simps pushAll_append
        push_def updateGroup_def Let_def)
  then obtain this' where run: "addVerticesAll calls start = Inr this'"
    and l: "map_option (map vertexLength) (elementGroups this' ''circle'') = Some [65535, 1]"
      "map_option (map vertexStartIndex) (elementGroups this' ''circle'') = Some [0, 65535]"
    by (elim exE conjE)
  have small: "\<forall>call \<in> set calls. length (snd call) \<le> 65535"
    by (simp add: calls_def)
  note inst = makeRoomFor_vertexLength_limit [where this = start and calls = calls
      and this' = this' and bucket = "\<lparr>elementGroups = Map.empty, buffers = Map.empty\<rparr>"
      and shaderInterfaces = "[(''circle'', \<lparr>vertexBuffer = True, elementBuffer = True,
          secondElementBuffer = False, vertexItemSize = 4, elementItemSize = 6,
          secondElementItemSize = 0\<rparr>)]"]
  have init: "groupsWithinLimit start"
    unfolding start_def by (rule inst [THEN conjunct2, THEN conjunct2, THEN conjunct1])
  from inst [THEN conjunct1] init small run have lim: "groupsWithinLimit this'" by simp
  have "\<exists>this'. addVerticesAll calls start = Inr this'
     \<and> groupsWithinLimit this'
     \<and> map_option (map vertexLength) (elementGroups this' ''circle'') = Some [65535, 1]
     \<and> map_option (map vertexStartIndex) (elementGroups this' ''circle'') = Some [0, 65535]"
    by (intro exI [of _ this'] conjI run lim l)
  then show ?thesis
    unfolding start_def calls_def .
qed

section \<open>Properties of the circle bucket\<close>

lemma addCirclePoint_outside:
  "\<not> insideTile pt \<Longrightarrow> addCirclePoint pt this = Inr this"
  by (auto simp: addCirclePoint_def insideTile_def Let_def)

lemma addCirclePoint_inside:
  assumes inside: "insideTile (x, y)"
    and m: "makeRoomFor ''circle'' 4 this = Inr (grp, this1)"
    and gs1: "elementGroups this1 ''circle'' = Some groups1"
    and vb: "buffers this ''circleVertex'' = Some vb"
    and eb: "buffers this ''circleElement'' = Some eb"
  shows "addCirclePoint (x, y) this = Inr (this1\<lparr>
      elementGroups := (elementGroups this1)(''circle'' \<mapsto> butlast groups1 @
         [grp\<lparr>vertexLength := vertexLength grp + 4, elementLength := elementLength grp + 2\<rparr>]),
      buffers := (buffers this)
        (''circleVertex'' \<mapsto> vb\<lparr>items := items vb @
           [CircleVertex (word_of_int (x * 2)) (word_of_int (y * 2)),
            CircleVertex (word_of_int (x * 2 + 1)) (word_of_int (y * 2)),
            CircleVertex (word_of_int (x * 2 + 1)) (word_of_int (y * 2 + 1)),
            CircleVertex (word_of_int (x * 2)) (word_of_int (y * 2 + 1))]\<rparr>,
         ''circleElement'' \<mapsto> eb\<lparr>items := items eb @
           [CircleElement (int (length (items vb)) - int (vertexStartIndex grp))
              (int (length (items vb)) - int (vertexStartIndex grp) + 1)
              (int (length (items vb)) - int (vertexStartIndex grp) + 2),
            CircleElement (int (length (items vb)) - int (vertexStartIndex grp))
              (int (length (items vb)) - int (vertexStartIndex grp) + 3)
              (int (length (items vb)) - int (vertexStartIndex grp) + 2)]\<rparr>)\<rparr>)"
proof -
  from makeRoomFor_result [OF m] gs1 have
    b1: "buffers this1 = buffers this" and l: "last groups1 = grp" and ne: "groups1 \<noteq> []"
    by auto
  from inside have c: "\<not> (x < 0 \<or> x \<ge> EXTENT \<or> y < 0 \<or> y \<ge> EXTENT)"
    by (auto simp: insideTile_def)
  show ?thesis
    using c
    by (simp add: addCirclePoint_def m addCircleVertex_def push_def b1 vb eb gs1 l
        updateGroup_def Let_def fun_upd_twist)
qed


lemma sum_list_butlast_snoc:
  fixes f :: "'b \<Rightarrow> nat"
  assumes "xs \<noteq> []"
  shows "sum_list (map f (butlast xs @ [y])) + f (last xs) = sum_list (map f xs) + f y"
proof -
  from assms have "xs = butlast xs @ [last xs]" by simp
  then have "sum_list (map f xs) = sum_list (map f (butlast xs @ [last xs]))" by simp
  then show ?thesis by simp
qed

lemma addCirclePoint_counts:
  assumes ready: "circleReady this"
  shows "\<exists>this'. addCirclePoint pt this = Inr this' \<and> circleReady this'
     \<and> bufferLength ''circleVertex'' this' =
         bufferLength ''circleVertex'' this + (if insideTile pt then 4 else 0)
     \<and> bufferLength ''circleElement'' this' =
         bufferLength ''circleElement'' this + (if insideTile pt then 2 else 0)
     \<and> groupTotal vertexLength ''circle'' this' =
         groupTotal vertexLength ''circle'' this + (if insideTile pt then 4 else 0)
     \<and> groupTotal elementLength ''circle'' this' =
         groupTotal elementLength ''circle'' this + (if insideTile pt then 2 else 0)"
proof (cases "insideTile pt")
  case False
  with ready show ?thesis by (simp add: addCirclePoint_outside)
next
  case True
  obtain x y where pt: "pt = (x, y)" by (cases pt)
  from ready obtain groups vb eb where
    gs: "elementGroups this ''circle'' = Some groups" and
    vb: "buffers this ''circleVertex'' = Some vb" and
    eb: "buffers this ''circleElement'' = Some eb"
    by (auto simp: circleReady_def)
  have vb': "buffers this (getBufferName ''circle'' ''vertex'') = Some vb"
    using vb by (simp add: getBufferName_simps)
  show ?thesis
  proof (cases "groups = [] \<or> 65535 < vertexLength (last groups) + 4")
    case room: False
    then have m: "makeRoomFor ''circle'' 4 this = Inr (last groups, this)"
      using makeRoomFor_has_room [OF gs, of 4] by simp
    from room have ne: "groups \<noteq> []" by simp
    note r = addCirclePoint_inside [OF True [unfolded pt] m gs vb eb]
    have v: "sum_list (map vertexLength (butlast groups @
        [last groups\<lparr>vertexLength := vertexLength (last groups) + 4,
            elementLength := elementLength (last groups) + 2\<rparr>]))
        = sum_list (map vertexLength groups) + 4"
      using sum_list_butlast_snoc [OF ne, of vertexLength
          "last groups\<lparr>vertexLength := vertexLength (last groups) + 4,
            elementLength := elementLength (last groups) + 2\<rparr>"]
      by simp
    have e: "sum_list (map elementLength (butlast groups @
        [last groups\<lparr>vertexLength := vertexLength (last groups) + 4,
            elementLength := elementLength (last groups) + 2\<rparr>]))
        = sum_list (map elementLength groups) + 2"
      using sum_list_butlast_snoc [OF ne, of elementLength
          "last groups\<lparr>vertexLength := vertexLength (last groups) + 4,
            elementLength := elementLength (last groups) + 2\<rparr>"]
      by simp
    show ?thesis
      using True v e
      by (simp add: pt r circleReady_def bufferLength_def groupTotal_def gs vb eb)
  next
    case noroom: True
    from makeRoomFor_no_room [OF gs noroom vb'] obtain g where
      m: "makeRoomFor ''circle'' 4 this =
           Inr (g, this\<lparr>elementGroups := (elementGroups this)(''circle'' \<mapsto> groups @ [g])\<rparr>)"
      and z: "vertexLength g = 0" "elementLength g = 0"
      by blast
    have gs1: "elementGroups (this\<lparr>elementGroups :=
        (elementGroups this)(''circle'' \<mapsto> groups @ [g])\<rparr>) ''circle'' = Some (groups @ [g])"
      by simp
    note r = addCirclePoint_inside [OF True [unfolded pt] m gs1 vb eb]
    show ?thesis
      using True z
      by (simp add: pt r circleReady_def bufferLength_def groupTotal_def gs vb eb)
  qed
qed

lemma addCircleRing_counts:
  assumes "circleReady this"
  shows "\<exists>this'. addCircleRing ring this = Inr this' \<and> circleReady this'
     \<and> bufferLength ''circleVertex'' this' =
         bufferLength ''circleVertex'' this + 4 * length (filter insideTile ring)
     \<and> bufferLength ''circleElement'' this' =
         bufferLength ''circleElement'' this + 2 * length (filter insideTile ring)
     \<and> groupTotal vertexLength ''circle'' this' =
         groupTotal vertexLength ''circle'' this + 4 * length (filter insideTile ring)
     \<and> groupTotal elementLength ''circle'' this' =
         groupTotal elementLength ''circle'' this + 2 * length (filter insideTile ring)"
  using assms
proof (induction ring arbitrary: this)
  case Nil
  then show ?case by simp
next
  case (Cons pt ring)
  from addCirclePoint_counts [OF Cons.prems, of pt] obtain this1 where
    1: "addCirclePoint pt this = Inr this1" "circleReady this1"
      "bufferLength ''circleVertex'' this1 =
         bufferLength ''circleVertex'' this + (if insideTile pt then 4 else 0)"
      "bufferLength ''circleElement'' this1 =
         bufferLength ''circleElement'' this + (if insideTile pt then 2 else 0)"
      "groupTotal vertexLength ''circle'' this1 =
         groupTotal vertexLength ''circle'' this + (if insideTile pt then 4 else 0)"
      "groupTotal elementLength ''circle'' this1 =
         groupTotal elementLength ''circle'' this + (if insideTile pt then 2 else 0)"
    by blast
  from Cons.IH [OF 1(2)] obtain this' where
    2: "addCircleRing ring this1 = Inr this'" "circleReady this'"
      "bufferLength ''circleVertex'' this' =
         bufferLength ''circleVertex'' this1 + 4 * length (filter insideTile ring)"
      "bufferLength ''circleElement'' this' =
         bufferLength ''circleElement'' this1 + 2 * length (filter insideTile ring)"
      "groupTotal vertexLength ''circle'' this' =
         groupTotal vertexLength ''circle'' this1 + 4 * length (filter insideTile ring)"
      "groupTotal elementLength ''circle'' this' =
         groupTotal elementLength ''circle'' this1 + 2 * length (filter insideTile ring)"
    by blast
  show ?case
    using 1 2 by (intro exI [of _ this']) simp
qed

lemma addFeature_counts:
  assumes "circleReady this"
  shows "\<exists>this'. addFeature geometries this = Inr this' \<and> circleReady this'
     \<and> bufferLength ''circleVertex'' this' =
         bufferLength ''circleVertex'' this + 4 * insideCount geometries
     \<and> bufferLength ''circleElement'' this' =
         bufferLength ''circleElement'' this + 2 * insideCount geometries
     \<and> groupTotal vertexLength ''circle'' this' =
         groupTotal vertexLength ''circle'' this + 4 * insideCount geometries
     \<and> groupTotal elementLength ''circle'' this' =
         groupTotal elementLength ''circle'' this + 2 * insideCount geometries"
  using assms
proof (induction geometries arbitrary: this)
  case Nil
  then show ?case by simp
next
  case (Cons ring rings)
  from addCircleRing_counts [OF Cons.prems, of ring] obtain this1 where
    1: "addCircleRing ring this = Inr this1" "circleReady this1"
      "bufferLength ''circleVertex'' this1 =
         bufferLength ''circleVertex'' this + 4 * length (filter insideTile ring)"
      "bufferLength ''circleElement'' this1 =
         bufferLength ''circleElement'' this + 2 * length (filter insideTile ring)"
      "groupTotal vertexLength ''circle'' this1 =
         groupTotal vertexLength ''circle'' this + 4 * length (filter insideTile ring)"
      "groupTotal elementLength ''circle'' this1 =
         groupTotal elementLength ''circle'' this + 2 * length (filter insideTile ring)"
    by blast
  from Cons.IH [OF 1(2)] obtain this' where
    2: "addFeature rings this1 = Inr this'" "circleReady this'"
      "bufferLength ''circleVertex'' this' =
         bufferLength ''circleVertex'' this1 + 4 * insideCount rings"
      "bufferLength ''circleElement'' this' =
         bufferLength ''circleElement'' this1 + 2 * insideCount rings"
      "groupTotal vertexLength ''circle'' this' =
         groupTotal vertexLength ''circle'' this1 + 4 * insideCount rings"
      "groupTotal elementLength ''circle'' this' =
         groupTotal elementLength ''circle'' this1 + 2 * insideCount rings"
    by blast
  show ?case
    using 1 2 by (intro exI [of _ this']) simp
qed

lemma addCircleRing_filter:
  "addCircleRing ring this = addCircleRing (filter insideTile ring) this"
proof (induction ring arbitrary: this)
  case Nil
  then show ?case by simp
next
  case (Cons pt ring)
  then show ?case
    by (simp add: addCirclePoint_outside js_bind_def split: sum.splits)
qed

lemma addFeature_filter:
  "addFeature geometries this = addFeature (map (filter insideTile) geometries) this"
proof (induction geometries arbitrary: this)
  case Nil
  then show ?case by simp
next
  case (Cons ring rings)
  have "addFeature (ring # rings) this =
      js_bind (addCircleRing (filter insideTile ring) this) (addFeature rings)"
    using addCircleRing_filter [of ring this] by simp
  also have "\<dots> = js_bind (addCircleRing (filter insideTile ring) this)
      (addFeature (map (filter insideTile) rings))"
    using Cons.IH by (simp add: js_bind_def split: sum.splits)
  finally show ?case by simp
qed

lemma addCirclePoint_vertices:
  assumes ready: "circleReady this"
  shows "\<exists>this'. addCirclePoint pt this = Inr this' \<and> circleReady this'
     \<and> bufferItems ''circleVertex'' this' =
         bufferItems ''circleVertex'' this @ (if insideTile pt then circleQuad pt else [])"
proof (cases "insideTile pt")
  case False
  with ready show ?thesis by (simp add: addCirclePoint_outside)
next
  case True
  obtain x y where pt: "pt = (x, y)" by (cases pt)
  from ready obtain groups vb eb where
    gs: "elementGroups this ''circle'' = Some groups" and
    vb: "buffers this ''circleVertex'' = Some vb" and
    eb: "buffers this ''circleElement'' = Some eb"
    by (auto simp: circleReady_def)
  have vb': "buffers this (getBufferName ''circle'' ''vertex'') = Some vb"
    using vb by (simp add: getBufferName_simps)
  show ?thesis
  proof (cases "groups = [] \<or> 65535 < vertexLength (last groups) + 4")
    case room: False
    then have m: "makeRoomFor ''circle'' 4 this = Inr (last groups, this)"
      using makeRoomFor_has_room [OF gs, of 4] by simp
    note r = addCirclePoint_inside [OF True [unfolded pt] m gs vb eb]
    show ?thesis
      using True
      by (simp add: pt r circleReady_def bufferItems_def circleQuad_def gs vb eb)
  next
    case noroom: True
    from makeRoomFor_no_room [OF gs noroom vb'] obtain g where
      m: "makeRoomFor ''circle'' 4 this =
           Inr (g, this\<lparr>elementGroups := (elementGroups this)(''circle'' \<mapsto> groups @ [g])\<rparr>)"
      by blast
    have gs1: "elementGroups (this\<lparr>elementGroups :=
        (elementGroups this)(''circle'' \<mapsto> groups @ [g])\<rparr>) ''circle'' = Some (groups @ [g])"
      by simp
    note r = addCirclePoint_inside [OF True [unfolded pt] m gs1 vb eb]
    show ?thesis
      using True
      by (simp add: pt r circleReady_def bufferItems_def circleQuad_def gs vb eb)
  qed
qed

lemma addCircleRing_vertices:
  assumes "circleReady this"
  shows "\<exists>this'. addCircleRing ring this = Inr this' \<and> circleReady this'
     \<and> bufferItems ''circleVertex'' this' =
         bufferItems ''circleVertex'' this @ concat (map circleQuad (filter insideTile ring))"
  using assms
proof (induction ring arbitrary: this)
  case Nil
  then show ?case by simp
next
  case (Cons pt ring)
  from addCirclePoint_vertices [OF Cons.prems, of pt] obtain this1 where
    1: "addCirclePoint pt this = Inr this1" "circleReady this1"
      "bufferItems ''circleVertex'' this1 =
         bufferItems ''circleVertex'' this @ (if insideTile pt then circleQuad pt else [])"
    by blast
  from Cons.IH [OF 1(2)] obtain this' where
    2: "addCircleRing ring this1 = Inr this'" "circleReady this'"
      "bufferItems ''circleVertex'' this' =
         bufferItems ''circleVertex'' this1 @ concat (map circleQuad (filter insideTile ring))"
    by blast
  show ?case
    using 1 2 by (intro exI [of _ this']) simp
qed

lemma addFeature_vertices:
  assumes "circleReady this"
  shows "\<exists>this'. addFeature geometries this = Inr this' \<and> circleReady this'
     \<and> bufferItems ''circleVertex'' this' =
         bufferItems ''circleVertex'' this
           @ concat (map circleQuad (filter insideTile (concat geometries)))"
  using assms
proof (induction geometries arbitrary: this)
  case Nil
  then show ?case by simp
next
  case (Cons ring rings)
  from addCircleRing_vertices [OF Cons.prems, of ring] obtain this1 where
    1: "addCircleRing ring this = Inr this1" "circleReady this1"
      "bufferItems ''circleVertex'' this1 =
         bufferItems ''circleVertex'' this @ concat (map circleQuad (filter insideTile ring))"
    by blast
  from Cons.IH [OF 1(2)] obtain this' where
    2: "addFeature rings this1 = Inr this'" "circleReady this'"
      "bufferItems ''circleVertex'' this' =
         bufferItems ''circleVertex'' this1
           @ concat (map circleQuad (filter insideTile (concat rings)))"
    by blast
  show ?case
    using 1 2 by (intro exI [of _ this']) simp
qed

lemma insideCount_concat: "insideCount geometries = length (filter insideTile (concat geometries))"
  by (induction geometries) simp_all

lemma Int16_roundtrip:
  assumes "0 \<le> c" "c < EXTENT" and "e = 0 \<or> e = 1"
  shows "sint (word_of_int (c * 2 + e) :: 16 word) = c * 2 + e"
proof -
  from assms have "- (2 ^ 15) \<le> c * 2 + e" "c * 2 + e < 2 ^ 15"
    by (auto simp: EXTENT_def)
  then have st: "signed_take_bit 15 (c * 2 + e) = c * 2 + e"
    by (rule signed_take_bit_int_eq_self)
  have "sint (word_of_int (c * 2 + e) :: 16 word) =
      signed_take_bit (LENGTH(16) - 1) (c * 2 + e)"
    by (rule sint_sbintrunc')
  also have "\<dots> = signed_take_bit 15 (c * 2 + e)" by simp
  finally show ?thesis using st by simp
qed


lemma circle_start:
  "createBuffers
      [(''circle'', \<lparr>vertexBuffer = True, elementBuffer = True, secondElementBuffer = False,
          vertexItemSize = 4, elementItemSize = 6, secondElementItemSize = 0\<rparr>)]
      \<lparr>elementGroups = Map.empty, buffers = Map.empty\<rparr>
   = \<lparr>elementGroups = [''circle'' \<mapsto> []],
      buffers = [''circleVertex'' \<mapsto> \<lparr>items = [], itemSize = 4\<rparr>,
                 ''circleElement'' \<mapsto> \<lparr>items = [], itemSize = 6\<rparr>]\<rparr>"
  by (simp add: createBuffers_def createBuffers_step_def getBufferName_simps)

text \<open>
  Claim C5. In a bucket with its circle group list and buffers, a point with both
  coordinates in \<open>[0, EXTENT)\<close> appends exactly four vertices and two triangles: the
  vertices are \<open>(x * 2 + (extrudeX + 1) / 2, y * 2 + (extrudeY + 1) / 2)\<close> for the extrusions
  \<open>(-1, -1)\<close>, \<open>(1, -1)\<close>, \<open>(1, 1)\<close>, \<open>(-1, 1)\<close>, the triangles are
  \<open>(index, index + 1, index + 2)\<close> and \<open>(index, index + 3, index + 2)\<close>, and the group that
  \<open>makeRoomFor\<close> returned has its \<open>vertexLength\<close> raised by 4 and its \<open>elementLength\<close> by 2.
  For a coordinate in \<open>[0, EXTENT)\<close> the encoded position read back from its \<open>Int16\<close> is
  the number that was stored. Over a whole feature the vertex buffer grows by 4, the
  element buffer by 2, and the groups' \<open>vertexLength\<close> and \<open>elementLength\<close> by 4 and 2 in
  total, for every point of the geometry inside the tile.
\<close>

theorem addFeature_circle_point_quads:
  "(insideTile (x, y) \<and> makeRoomFor ''circle'' 4 this = Inr (grp, this1)
      \<and> elementGroups this1 ''circle'' = Some groups1
      \<and> buffers this ''circleVertex'' = Some vb \<and> buffers this ''circleElement'' = Some eb
    \<longrightarrow> addCirclePoint (x, y) this = Inr (this1\<lparr>
      elementGroups := (elementGroups this1)(''circle'' \<mapsto> butlast groups1 @
         [grp\<lparr>vertexLength := vertexLength grp + 4, elementLength := elementLength grp + 2\<rparr>]),
      buffers := (buffers this)
        (''circleVertex'' \<mapsto> vb\<lparr>items := items vb @
           [CircleVertex (word_of_int (x * 2 + (- 1 + 1) div 2))
                         (word_of_int (y * 2 + (- 1 + 1) div 2)),
            CircleVertex (word_of_int (x * 2 + (1 + 1) div 2))
                         (word_of_int (y * 2 + (- 1 + 1) div 2)),
            CircleVertex (word_of_int (x * 2 + (1 + 1) div 2))
                         (word_of_int (y * 2 + (1 + 1) div 2)),
            CircleVertex (word_of_int (x * 2 + (- 1 + 1) div 2))
                         (word_of_int (y * 2 + (1 + 1) div 2))]\<rparr>,
         ''circleElement'' \<mapsto> eb\<lparr>items := items eb @
           [CircleElement (int (length (items vb)) - int (vertexStartIndex grp))
              (int (length (items vb)) - int (vertexStartIndex grp) + 1)
              (int (length (items vb)) - int (vertexStartIndex grp) + 2),
            CircleElement (int (length (items vb)) - int (vertexStartIndex grp))
              (int (length (items vb)) - int (vertexStartIndex grp) + 3)
              (int (length (items vb)) - int (vertexStartIndex grp) + 2)]\<rparr>)\<rparr>))
   \<and> (0 \<le> c \<and> c < EXTENT \<and> (e = - 1 \<or> e = 1)
        \<longrightarrow> sint (word_of_int (c * 2 + (e + 1) div 2) :: 16 word) = c * 2 + (e + 1) div 2)
   \<and> (circleReady this \<longrightarrow>
        (\<exists>this'. addFeature geometries this = Inr this' \<and> circleReady this'
           \<and> bufferLength ''circleVertex'' this' =
               bufferLength ''circleVertex'' this + 4 * insideCount geometries
           \<and> bufferLength ''circleElement'' this' =
               bufferLength ''circleElement'' this + 2 * insideCount geometries
           \<and> groupTotal vertexLength ''circle'' this' =
               groupTotal vertexLength ''circle'' this + 4 * insideCount geometries
           \<and> groupTotal elementLength ''circle'' this' =
               groupTotal elementLength ''circle'' this + 2 * insideCount geometries))"
proof (intro conjI impI)
  assume a: "insideTile (x, y) \<and> makeRoomFor ''circle'' 4 this = Inr (grp, this1)
      \<and> elementGroups this1 ''circle'' = Some groups1
      \<and> buffers this ''circleVertex'' = Some vb \<and> buffers this ''circleElement'' = Some eb"
  then have "insideTile (x, y)" "makeRoomFor ''circle'' 4 this = Inr (grp, this1)"
    "elementGroups this1 ''circle'' = Some groups1"
    "buffers this ''circleVertex'' = Some vb" "buffers this ''circleElement'' = Some eb"
    by simp_all
  from addCirclePoint_inside [OF this]
  show "addCirclePoint (x, y) this = Inr (this1\<lparr>
      elementGroups := (elementGroups this1)(''circle'' \<mapsto> butlast groups1 @
         [grp\<lparr>vertexLength := vertexLength grp + 4, elementLength := elementLength grp + 2\<rparr>]),
      buffers := (buffers this)
        (''circleVertex'' \<mapsto> vb\<lparr>items := items vb @
           [CircleVertex (word_of_int (x * 2 + (- 1 + 1) div 2))
                         (word_of_int (y * 2 + (- 1 + 1) div 2)),
            CircleVertex (word_of_int (x * 2 + (1 + 1) div 2))
                         (word_of_int (y * 2 + (- 1 + 1) div 2)),
            CircleVertex (word_of_int (x * 2 + (1 + 1) div 2))
                         (word_of_int (y * 2 + (1 + 1) div 2)),
            CircleVertex (word_of_int (x * 2 + (- 1 + 1) div 2))
                         (word_of_int (y * 2 + (1 + 1) div 2))]\<rparr>,
         ''circleElement'' \<mapsto> eb\<lparr>items := items eb @
           [CircleElement (int (length (items vb)) - int (vertexStartIndex grp))
              (int (length (items vb)) - int (vertexStartIndex grp) + 1)
              (int (length (items vb)) - int (vertexStartIndex grp) + 2),
            CircleElement (int (length (items vb)) - int (vertexStartIndex grp))
              (int (length (items vb)) - int (vertexStartIndex grp) + 3)
              (int (length (items vb)) - int (vertexStartIndex grp) + 2)]\<rparr>)\<rparr>)"
    by simp
next
  assume "0 \<le> c \<and> c < EXTENT \<and> (e = - 1 \<or> e = 1)"
  then have c: "0 \<le> c" "c < EXTENT" and e: "(e + 1) div 2 = 0 \<or> (e + 1) div 2 = 1"
    by auto
  from Int16_roundtrip [OF c e]
  show "sint (word_of_int (c * 2 + (e + 1) div 2) :: 16 word) = c * 2 + (e + 1) div 2" .
next
  assume "circleReady this"
  then show "\<exists>this'. addFeature geometries this = Inr this' \<and> circleReady this'
           \<and> bufferLength ''circleVertex'' this' =
               bufferLength ''circleVertex'' this + 4 * insideCount geometries
           \<and> bufferLength ''circleElement'' this' =
               bufferLength ''circleElement'' this + 2 * insideCount geometries
           \<and> groupTotal vertexLength ''circle'' this' =
               groupTotal vertexLength ''circle'' this + 4 * insideCount geometries
           \<and> groupTotal elementLength ''circle'' this' =
               groupTotal elementLength ''circle'' this + 2 * insideCount geometries"
    by (rule addFeature_counts)
qed

theorem addFeature_circle_point_quads_witness:
  "\<exists>this'. addFeature [[(1, 2), (- 1, 5), (8192, 0), (3, 4)]]
       (createBuffers
          [(''circle'', \<lparr>vertexBuffer = True, elementBuffer = True, secondElementBuffer = False,
              vertexItemSize = 4, elementItemSize = 6, secondElementItemSize = 0\<rparr>)]
          \<lparr>elementGroups = Map.empty, buffers = Map.empty\<rparr>) = Inr this'
     \<and> bufferLength ''circleVertex'' this' = 8
     \<and> bufferLength ''circleElement'' this' = 4
     \<and> groupTotal vertexLength ''circle'' this' = 8
     \<and> groupTotal elementLength ''circle'' this' = 4
     \<and> map_option items (buffers this' ''circleVertex'') =
         Some [CircleVertex 2 4, CircleVertex 3 4, CircleVertex 3 5, CircleVertex 2 5,
               CircleVertex 6 8, CircleVertex 7 8, CircleVertex 7 9, CircleVertex 6 9]
     \<and> map_option items (buffers this' ''circleElement'') =
         Some [CircleElement 0 1 2, CircleElement 0 3 2, CircleElement 4 5 6,
               CircleElement 4 7 6]
     \<and> sint (word_of_int (8191 * 2 + (1 + 1) div 2) :: 16 word) = 16383"
proof -
  define start :: "circle_item Bucket" where "start = createBuffers
          [(''circle'', \<lparr>vertexBuffer = True, elementBuffer = True, secondElementBuffer = False,
              vertexItemSize = 4, elementItemSize = 6, secondElementItemSize = 0\<rparr>)]
          \<lparr>elementGroups = Map.empty, buffers = Map.empty\<rparr>"
  have s: "start = \<lparr>elementGroups = [''circle'' \<mapsto> []],
      buffers = [''circleVertex'' \<mapsto> \<lparr>items = [], itemSize = 4\<rparr>,
                 ''circleElement'' \<mapsto> \<lparr>items = [], itemSize = 6\<rparr>]\<rparr>"
    unfolding start_def by (rule circle_start)
  have ready: "circleReady start"
    by (simp add: s circleReady_def)
  have n: "insideCount [[(1, 2), (- 1, 5), (8192, 0), (3, 4)]] = 2"
    by (simp add: insideTile_def EXTENT_def)
  have z: "bufferLength ''circleVertex'' start = 0" "bufferLength ''circleElement'' start = 0"
    "groupTotal vertexLength ''circle'' start = 0" "groupTotal elementLength ''circle'' start = 0"
    by (simp_all add: s bufferLength_def groupTotal_def)
  note inst = addFeature_circle_point_quads [where this = start
      and geometries = "[[(1, 2), (- 1, 5), (8192, 0), (3, 4)]]"]
  from inst [THEN conjunct2, THEN conjunct2, THEN mp, OF ready] obtain this' where
    r: "addFeature [[(1, 2), (- 1, 5), (8192, 0), (3, 4)]] start = Inr this'"
    and c: "bufferLength ''circleVertex'' this' = bufferLength ''circleVertex'' start
               + 4 * insideCount [[(1, 2), (- 1, 5), (8192, 0), (3, 4)]]"
      "bufferLength ''circleElement'' this' = bufferLength ''circleElement'' start
               + 2 * insideCount [[(1, 2), (- 1, 5), (8192, 0), (3, 4)]]"
      "groupTotal vertexLength ''circle'' this' = groupTotal vertexLength ''circle'' start
               + 4 * insideCount [[(1, 2), (- 1, 5), (8192, 0), (3, 4)]]"
      "groupTotal elementLength ''circle'' this' = groupTotal elementLength ''circle'' start
               + 2 * insideCount [[(1, 2), (- 1, 5), (8192, 0), (3, 4)]]"
    by (elim exE conjE)
  from c have c': "bufferLength ''circleVertex'' this' = 8"
      "bufferLength ''circleElement'' this' = 4"
      "groupTotal vertexLength ''circle'' this' = 8"
      "groupTotal elementLength ''circle'' this' = 4"
    by (simp_all only: n z)
  define g0 where "g0 = \<lparr>vertexStartIndex = 0, elementStartIndex = Some 0,
      secondElementStartIndex = None, elementLength = 0, vertexLength = 0,
      secondElementLength = 0, elementOffset = Some 0, secondElementOffset = None,
      vertexOffset = 0\<rparr>"
  have m1: "makeRoomFor ''circle'' 4 start =
      Inr (g0, start\<lparr>elementGroups := [''circle'' \<mapsto> [g0]]\<rparr>)"
    by (simp add: s g0_def makeRoomFor_def getBufferName_simps Let_def)
  have i1: "insideTile (1, 2)" "insideTile (3, 4)" "\<not> insideTile (- 1, 5)"
    "\<not> insideTile (8192, 0)"
    by (simp_all add: insideTile_def EXTENT_def)
  have p1: "addCirclePoint (1, 2) start = Inr (start\<lparr>
      elementGroups := [''circle'' \<mapsto> [g0\<lparr>vertexLength := 4, elementLength := 2\<rparr>]],
      buffers := [''circleVertex'' \<mapsto> \<lparr>items =
           [CircleVertex 2 4, CircleVertex 3 4, CircleVertex 3 5, CircleVertex 2 5],
           itemSize = 4\<rparr>,
         ''circleElement'' \<mapsto> \<lparr>items = [CircleElement 0 1 2, CircleElement 0 3 2],
           itemSize = 6\<rparr>]\<rparr>)"
    using addFeature_circle_point_quads [where this = start and x = 1 and y = 2 and grp = g0
        and ?this1.0 = "start\<lparr>elementGroups := [''circle'' \<mapsto> [g0]]\<rparr>"
        and ?groups1.0 = "[g0]" and vb = "\<lparr>items = [], itemSize = 4\<rparr>"
        and eb = "\<lparr>items = [], itemSize = 6\<rparr>", THEN conjunct1] m1 i1(1)
    by (simp add: s g0_def numeral_2_eq_2 [symmetric])
  define mid where "mid = start\<lparr>
      elementGroups := [''circle'' \<mapsto> [g0\<lparr>vertexLength := 4, elementLength := 2\<rparr>]],
      buffers := [''circleVertex'' \<mapsto> \<lparr>items =
           [CircleVertex 2 4, CircleVertex 3 4, CircleVertex 3 5, CircleVertex 2 5],
           itemSize = 4\<rparr>,
         ''circleElement'' \<mapsto> \<lparr>items = [CircleElement 0 1 2, CircleElement 0 3 2],
           itemSize = 6\<rparr>]\<rparr>"
  have m2: "makeRoomFor ''circle'' 4 mid =
      Inr (g0\<lparr>vertexLength := 4, elementLength := 2\<rparr>, mid)"
    by (simp add: mid_def s g0_def makeRoomFor_def)
  have p2: "addCirclePoint (3, 4) mid = Inr (mid\<lparr>
      elementGroups := [''circle'' \<mapsto> [g0\<lparr>vertexLength := 8, elementLength := 4\<rparr>]],
      buffers := [''circleVertex'' \<mapsto> \<lparr>items =
           [CircleVertex 2 4, CircleVertex 3 4, CircleVertex 3 5, CircleVertex 2 5,
            CircleVertex 6 8, CircleVertex 7 8, CircleVertex 7 9, CircleVertex 6 9],
           itemSize = 4\<rparr>,
         ''circleElement'' \<mapsto> \<lparr>items = [CircleElement 0 1 2, CircleElement 0 3 2,
            CircleElement 4 5 6, CircleElement 4 7 6],
           itemSize = 6\<rparr>]\<rparr>)"
    using addFeature_circle_point_quads [where this = mid and x = 3 and y = 4
        and grp = "g0\<lparr>vertexLength := 4, elementLength := 2\<rparr>"
        and ?this1.0 = mid
        and ?groups1.0 = "[g0\<lparr>vertexLength := 4, elementLength := 2\<rparr>]"
        and vb = "\<lparr>items =
           [CircleVertex 2 4, CircleVertex 3 4, CircleVertex 3 5, CircleVertex 2 5],
           itemSize = 4\<rparr>"
        and eb = "\<lparr>items = [CircleElement 0 1 2, CircleElement 0 3 2], itemSize = 6\<rparr>",
        THEN conjunct1] m2 i1(2)
    by (simp add: mid_def s g0_def)
  have o: "addCirclePoint (- 1, 5) mid = Inr mid" "addCirclePoint (8192, 0) mid = Inr mid"
    using i1 by (simp_all add: addCirclePoint_def insideTile_def Let_def)
  have full: "addFeature [[(1, 2), (- 1, 5), (8192, 0), (3, 4)]] start = Inr (mid\<lparr>
      elementGroups := [''circle'' \<mapsto> [g0\<lparr>vertexLength := 8, elementLength := 4\<rparr>]],
      buffers := [''circleVertex'' \<mapsto> \<lparr>items =
           [CircleVertex 2 4, CircleVertex 3 4, CircleVertex 3 5, CircleVertex 2 5,
            CircleVertex 6 8, CircleVertex 7 8, CircleVertex 7 9, CircleVertex 6 9],
           itemSize = 4\<rparr>,
         ''circleElement'' \<mapsto> \<lparr>items = [CircleElement 0 1 2, CircleElement 0 3 2,
            CircleElement 4 5 6, CircleElement 4 7 6],
           itemSize = 6\<rparr>]\<rparr>)"
    by (simp add: p1 [folded mid_def] o p2)
  from r full have it: "map_option items (buffers this' ''circleVertex'') =
         Some [CircleVertex 2 4, CircleVertex 3 4, CircleVertex 3 5, CircleVertex 2 5,
               CircleVertex 6 8, CircleVertex 7 8, CircleVertex 7 9, CircleVertex 6 9]"
     "map_option items (buffers this' ''circleElement'') =
         Some [CircleElement 0 1 2, CircleElement 0 3 2, CircleElement 4 5 6,
               CircleElement 4 7 6]"
    by auto
  have rb: "sint (word_of_int (8191 * 2 + (1 + 1) div 2) :: 16 word) = 16383"
    using addFeature_circle_point_quads [where c = 8191 and e = 1,
        THEN conjunct2, THEN conjunct1]
    by (simp add: EXTENT_def)
  have "\<exists>this'. addFeature [[(1, 2), (- 1, 5), (8192, 0), (3, 4)]] start = Inr this'
     \<and> bufferLength ''circleVertex'' this' = 8
     \<and> bufferLength ''circleElement'' this' = 4
     \<and> groupTotal vertexLength ''circle'' this' = 8
     \<and> groupTotal elementLength ''circle'' this' = 4
     \<and> map_option items (buffers this' ''circleVertex'') =
         Some [CircleVertex 2 4, CircleVertex 3 4, CircleVertex 3 5, CircleVertex 2 5,
               CircleVertex 6 8, CircleVertex 7 8, CircleVertex 7 9, CircleVertex 6 9]
     \<and> map_option items (buffers this' ''circleElement'') =
         Some [CircleElement 0 1 2, CircleElement 0 3 2, CircleElement 4 5 6,
               CircleElement 4 7 6]
     \<and> sint (word_of_int (8191 * 2 + (1 + 1) div 2) :: 16 word) = 16383"
    by (intro exI [of _ this'] conjI r c' it rb)
  then show ?thesis
    unfolding start_def .
qed

text \<open>
  Claim C6. A point with \<open>x < 0\<close>, \<open>x \<ge> EXTENT\<close>, \<open>y < 0\<close> or \<open>y \<ge> EXTENT\<close> leaves the
  bucket as it is (no vertex, no index, no error), and a feature is tessellated exactly as
  the feature with those points removed from every ring. In a bucket with its circle group
  list and buffers \<open>addFeature\<close> raises no error, and what it appends to the vertex buffer is
  the four vertices of each point of the geometry that is inside the tile, in the order of
  the geometry, and nothing for the others: the remaining points are still tessellated.
  The element buffer grows by two triangles, and the groups' \<open>vertexLength\<close> and
  \<open>elementLength\<close> by 4 and 2 in total, for each point inside the tile.
\<close>

theorem addFeature_drops_outside_points:
  "(\<not> insideTile pt \<longrightarrow> addCirclePoint pt this = Inr this)
   \<and> addFeature geometries this = addFeature (map (filter insideTile) geometries) this
   \<and> (circleReady this \<longrightarrow>
        (\<exists>this'. addFeature geometries this = Inr this'
           \<and> bufferItems ''circleVertex'' this' =
               bufferItems ''circleVertex'' this
                 @ concat (map circleQuad (filter insideTile (concat geometries)))
           \<and> bufferLength ''circleElement'' this' =
               bufferLength ''circleElement'' this
                 + 2 * length (filter insideTile (concat geometries))
           \<and> groupTotal vertexLength ''circle'' this' =
               groupTotal vertexLength ''circle'' this
                 + 4 * length (filter insideTile (concat geometries))
           \<and> groupTotal elementLength ''circle'' this' =
               groupTotal elementLength ''circle'' this
                 + 2 * length (filter insideTile (concat geometries))))"
proof (intro conjI impI)
  assume "\<not> insideTile pt"
  then show "addCirclePoint pt this = Inr this" by (rule addCirclePoint_outside)
next
  show "addFeature geometries this = addFeature (map (filter insideTile) geometries) this"
    by (rule addFeature_filter)
next
  assume ready: "circleReady this"
  from addFeature_vertices [OF ready, of geometries] obtain this' where
    1: "addFeature geometries this = Inr this'"
      "bufferItems ''circleVertex'' this' =
         bufferItems ''circleVertex'' this
           @ concat (map circleQuad (filter insideTile (concat geometries)))"
    by blast
  from addFeature_counts [OF ready, of geometries] 1(1) have
    2: "bufferLength ''circleElement'' this' =
          bufferLength ''circleElement'' this + 2 * insideCount geometries"
       "groupTotal vertexLength ''circle'' this' =
          groupTotal vertexLength ''circle'' this + 4 * insideCount geometries"
       "groupTotal elementLength ''circle'' this' =
          groupTotal elementLength ''circle'' this + 2 * insideCount geometries"
    by auto
  show "\<exists>this'. addFeature geometries this = Inr this'
           \<and> bufferItems ''circleVertex'' this' =
               bufferItems ''circleVertex'' this
                 @ concat (map circleQuad (filter insideTile (concat geometries)))
           \<and> bufferLength ''circleElement'' this' =
               bufferLength ''circleElement'' this
                 + 2 * length (filter insideTile (concat geometries))
           \<and> groupTotal vertexLength ''circle'' this' =
               groupTotal vertexLength ''circle'' this
                 + 4 * length (filter insideTile (concat geometries))
           \<and> groupTotal elementLength ''circle'' this' =
               groupTotal elementLength ''circle'' this
                 + 2 * length (filter insideTile (concat geometries))"
    using 1 2 by (intro exI [of _ this']) (simp add: insideCount_concat)
qed


theorem addFeature_drops_outside_points_witness:
  "addCirclePoint (8192, 0)
       (createBuffers
          [(''circle'', \<lparr>vertexBuffer = True, elementBuffer = True, secondElementBuffer = False,
              vertexItemSize = 4, elementItemSize = 6, secondElementItemSize = 0\<rparr>)]
          \<lparr>elementGroups = Map.empty, buffers = Map.empty\<rparr>)
     = Inr (createBuffers
          [(''circle'', \<lparr>vertexBuffer = True, elementBuffer = True, secondElementBuffer = False,
              vertexItemSize = 4, elementItemSize = 6, secondElementItemSize = 0\<rparr>)]
          \<lparr>elementGroups = Map.empty, buffers = Map.empty\<rparr>)
   \<and> addFeature [[(1, 2), (- 1, 5), (8192, 0), (3, 4)]]
       (createBuffers
          [(''circle'', \<lparr>vertexBuffer = True, elementBuffer = True, secondElementBuffer = False,
              vertexItemSize = 4, elementItemSize = 6, secondElementItemSize = 0\<rparr>)]
          \<lparr>elementGroups = Map.empty, buffers = Map.empty\<rparr>)
     = addFeature [[(1, 2), (3, 4)]]
       (createBuffers
          [(''circle'', \<lparr>vertexBuffer = True, elementBuffer = True, secondElementBuffer = False,
              vertexItemSize = 4, elementItemSize = 6, secondElementItemSize = 0\<rparr>)]
          \<lparr>elementGroups = Map.empty, buffers = Map.empty\<rparr>)
   \<and> (\<exists>this'. addFeature [[(1, 2), (- 1, 5), (8192, 0), (3, 4)]]
       (createBuffers
          [(''circle'', \<lparr>vertexBuffer = True, elementBuffer = True, secondElementBuffer = False,
              vertexItemSize = 4, elementItemSize = 6, secondElementItemSize = 0\<rparr>)]
          \<lparr>elementGroups = Map.empty, buffers = Map.empty\<rparr>) = Inr this'
        \<and> bufferItems ''circleVertex'' this' =
            [CircleVertex 2 4, CircleVertex 3 4, CircleVertex 3 5, CircleVertex 2 5,
             CircleVertex 6 8, CircleVertex 7 8, CircleVertex 7 9, CircleVertex 6 9]
        \<and> bufferLength ''circleElement'' this' = 4
        \<and> groupTotal vertexLength ''circle'' this' = 8
        \<and> groupTotal elementLength ''circle'' this' = 4)"
proof -
  define start :: "circle_item Bucket" where "start = createBuffers
          [(''circle'', \<lparr>vertexBuffer = True, elementBuffer = True, secondElementBuffer = False,
              vertexItemSize = 4, elementItemSize = 6, secondElementItemSize = 0\<rparr>)]
          \<lparr>elementGroups = Map.empty, buffers = Map.empty\<rparr>"
  have s: "start = \<lparr>elementGroups = [''circle'' \<mapsto> []],
      buffers = [''circleVertex'' \<mapsto> \<lparr>items = [], itemSize = 4\<rparr>,
                 ''circleElement'' \<mapsto> \<lparr>items = [], itemSize = 6\<rparr>]\<rparr>"
    unfolding start_def by (rule circle_start)
  have ready: "circleReady start"
    by (simp add: s circleReady_def)
  have out: "\<not> insideTile (8192, 0)"
    by (simp add: insideTile_def EXTENT_def)
  have f: "map (filter insideTile) [[(1, 2), (- 1, 5), (8192, 0), (3, 4)]] = [[(1, 2), (3, 4)]]"
    by (simp add: insideTile_def EXTENT_def)
  have c: "filter insideTile (concat [[(1, 2), (- 1, 5), (8192, 0), (3, 4)]]) = [(1, 2), (3, 4)]"
    by (simp add: insideTile_def EXTENT_def)
  have q: "concat (map circleQuad [(1, 2), (3, 4)]) =
            [CircleVertex 2 4, CircleVertex 3 4, CircleVertex 3 5, CircleVertex 2 5,
             CircleVertex 6 8, CircleVertex 7 8, CircleVertex 7 9, CircleVertex 6 9]"
    by (simp add: circleQuad_def)
  have z: "bufferItems ''circleVertex'' start = []" "bufferLength ''circleElement'' start = 0"
    "groupTotal vertexLength ''circle'' start = 0" "groupTotal elementLength ''circle'' start = 0"
    by (simp_all add: s bufferItems_def bufferLength_def groupTotal_def)
  note inst = addFeature_drops_outside_points [where this = start and pt = "(8192, 0)"
      and geometries = "[[(1, 2), (- 1, 5), (8192, 0), (3, 4)]]"]
  from inst [THEN conjunct1, THEN mp, OF out]
  have 1: "addCirclePoint (8192, 0) start = Inr start" .
  from inst [THEN conjunct2, THEN conjunct1]
  have 2: "addFeature [[(1, 2), (- 1, 5), (8192, 0), (3, 4)]] start
      = addFeature [[(1, 2), (3, 4)]] start"
    by (simp only: f)
  from inst [THEN conjunct2, THEN conjunct2, THEN mp, OF ready]
  have 3: "\<exists>this'. addFeature [[(1, 2), (- 1, 5), (8192, 0), (3, 4)]] start = Inr this'
        \<and> bufferItems ''circleVertex'' this' =
            [CircleVertex 2 4, CircleVertex 3 4, CircleVertex 3 5, CircleVertex 2 5,
             CircleVertex 6 8, CircleVertex 7 8, CircleVertex 7 9, CircleVertex 6 9]
        \<and> bufferLength ''circleElement'' this' = 4
        \<and> groupTotal vertexLength ''circle'' this' = 8
        \<and> groupTotal elementLength ''circle'' this' = 4"
    by (simp only: c q z append_Nil list.size One_nat_def) simp
  from 1 2 3 show ?thesis
    unfolding start_def by (intro conjI)
qed

section \<open>Properties of the tile parser\<close>

lemma perform_simps [simp]:
  "status (perform es t) = status t" "angle (perform es t) = angle t"
  "pitch (perform es t) = pitch t" "redoPlacementAfterDone (perform es t) = redoPlacementAfterDone t"
  "symbolBuckets (perform es t) = symbolBuckets t" "buckets (perform es t) = buckets t"
  "deps (perform es t) = deps t" "glyphsPending (perform es t) = glyphsPending t"
  "iconsPending (perform es t) = iconsPending t" "effects (perform es t) = effects t @ es"
  by (simp_all add: perform_def)

lemma fold_parseBucket:
  "fold parseBucket bs t = perform (map PopulateBuffers bs) t"
  by (induction bs arbitrary: t) (simp_all add: parseBucket_def perform_def)

lemma redoPlacement_frame [simp]:
  "symbolBuckets (snd (redoPlacement a p sh t)) = symbolBuckets t"
  "buckets (snd (redoPlacement a p sh t)) = buckets t"
  "deps (snd (redoPlacement a p sh t)) = deps t"
  "glyphsPending (snd (redoPlacement a p sh t)) = glyphsPending t"
  "iconsPending (snd (redoPlacement a p sh t)) = iconsPending t"
  "pitch (snd (redoPlacement a p sh t)) = pitch t"
  "status (snd (redoPlacement a p sh t)) = status t"
  by (simp_all add: redoPlacement_def)

lemma redoPlacement_effects:
  "effects (snd (redoPlacement a p sh t)) = effects t @
     (if status t \<noteq> Done then []
      else NewCollisionTile a p # map (\<lambda>b. PlaceFeatures b sh) (rev (symbolBuckets t)))"
  by (simp add: redoPlacement_def)

lemma doneParsing_frame [simp]:
  "symbolBuckets (doneParsing t) = symbolBuckets t"
  "buckets (doneParsing t) = buckets t"
  "deps (doneParsing t) = deps t"
  "glyphsPending (doneParsing t) = glyphsPending t"
  "iconsPending (doneParsing t) = iconsPending t"
  "pitch (doneParsing t) = pitch t"
  "status (doneParsing t) = Done"
  "redoPlacementAfterDone (doneParsing t) = False"
  by (simp_all add: doneParsing_def Let_def)

lemma doneParsing_effects:
  "effects (doneParsing t) = effects t @
     (if redoPlacementAfterDone t
      then NewCollisionTile (angle t) (pitch t) #
           map (\<lambda>b. PlaceFeatures b None) (rev (symbolBuckets t))
      else []) @ [CallbackResult (serializedBuckets (buckets t))]"
  by (simp add: doneParsing_def Let_def redoPlacement_def)

lemma symbolPopulates_append [simp]:
  "symbolPopulates (es @ es') = symbolPopulates es @ symbolPopulates es'"
  by (simp add: symbolPopulates_def)

lemma callbackResults_append [simp]:
  "callbackResults (es @ es') = callbackResults es @ callbackResults es'"
  by (simp add: callbackResults_def)

lemma symbolPopulates_simps [simp]:
  "symbolPopulates [] = []"
  "symbolPopulates (NewCollisionTile a p # es) = symbolPopulates es"
  "symbolPopulates (SendGetGlyphs # es) = symbolPopulates es"
  "symbolPopulates (SendGetIcons ic # es) = symbolPopulates es"
  "symbolPopulates (PlaceFeatures b sh # es) = symbolPopulates es"
  "symbolPopulates (CallbackError e # es) = symbolPopulates es"
  "symbolPopulates (CallbackResult r # es) = symbolPopulates es"
  "symbolPopulates (PopulateBuffers b # es) =
     (if bucket_type b = ''symbol'' then b # symbolPopulates es else symbolPopulates es)"
  by (simp_all add: symbolPopulates_def)

lemma callbackResults_simps [simp]:
  "callbackResults [] = []"
  "callbackResults (NewCollisionTile a p # es) = callbackResults es"
  "callbackResults (SendGetGlyphs # es) = callbackResults es"
  "callbackResults (SendGetIcons ic # es) = callbackResults es"
  "callbackResults (PlaceFeatures b sh # es) = callbackResults es"
  "callbackResults (CallbackError e # es) = callbackResults es"
  "callbackResults (PopulateBuffers b # es) = callbackResults es"
  "callbackResults (CallbackResult r # es) = r # callbackResults es"
  by (simp_all add: callbackResults_def)

lemma symbolPopulates_map_Populate [simp]:
  "symbolPopulates (map PopulateBuffers bs) = filter (\<lambda>b. bucket_type b = ''symbol'') bs"
  by (induction bs) simp_all

lemma symbolPopulates_map_Place [simp]:
  "symbolPopulates (map (\<lambda>b. PlaceFeatures b sh) bs) = []"
  by (induction bs) simp_all

lemma callbackResults_map_Populate [simp]:
  "callbackResults (map PopulateBuffers bs) = []"
  by (induction bs) simp_all

lemma callbackResults_map_Place [simp]:
  "callbackResults (map (\<lambda>b. PlaceFeatures b sh) bs) = []"
  by (induction bs) simp_all

lemma gotDependency_frame [simp]:
  "symbolBuckets (gotDependency err t) = symbolBuckets t"
  "buckets (gotDependency err t) = buckets t"
  "glyphsPending (gotDependency err t) = glyphsPending t"
  "iconsPending (gotDependency err t) = iconsPending t"
  "deps (gotDependency err t) = (if err = None then deps t + 1 else deps t)"
  by (simp_all add: gotDependency_def Let_def fold_parseBucket split: option.splits)


lemma gotDependency_results:
  "callbackResults (effects (gotDependency err t)) = callbackResults (effects t) @
     (if err = None \<and> deps t = 1 then [serializedBuckets (buckets t)] else [])"
  by (simp add: gotDependency_def Let_def fold_parseBucket doneParsing_effects split: option.splits)

lemma gotDependency_error:
  "CallbackError e \<in> set (effects (gotDependency (Some e) t))"
  by (simp add: gotDependency_def)

lemma deliver_frame [simp]:
  "symbolBuckets (deliver ev s) = symbolBuckets s"
  "buckets (deliver ev s) = buckets s"
  by (cases ev; simp)+

lemma deliver_deps:
  "deps (deliver ev s) = deps s +
     (if (glyphsPending s \<and> ev = GlyphsResponse None) \<or> (iconsPending s \<and> ev = IconsResponse None)
      then 1 else 0)"
  by (cases ev) auto

lemma deliver_glyphsPending:
  "glyphsPending (deliver ev s) = (glyphsPending s \<and> (\<forall>err. ev \<noteq> GlyphsResponse err))"
  by (cases ev) auto

lemma deliver_iconsPending:
  "iconsPending (deliver ev s) = (iconsPending s \<and> (\<forall>err. ev \<noteq> IconsResponse err))"
  by (cases ev) auto


lemma deliver_results:
  "callbackResults (effects (deliver ev s)) = callbackResults (effects s) @
     (if deps s = 1 \<and> deps (deliver ev s) = 2 then [serializedBuckets (buckets s)] else [])"
  by (cases ev) (auto simp: gotDependency_results redoPlacement_effects)

lemma deliver_status:
  "status (deliver ev s) = (if deps s = 1 \<and> deps (deliver ev s) = 2 then Done else status s)"
  by (cases ev) (auto simp: gotDependency_def Let_def fold_parseBucket split: option.splits)

lemma deliver_effects_mono:
  "set (effects s) \<subseteq> set (effects (deliver ev s))"
  by (cases ev)
     (auto simp: gotDependency_def Let_def fold_parseBucket doneParsing_effects
        redoPlacement_effects split: option.splits)

lemma run_Nil [simp]: "run [] s = s"
  by (simp add: run_def)

lemma run_Cons [simp]: "run (ev # events) s = run events (deliver ev s)"
  by (simp add: run_def)

lemma run_frame [simp]:
  "symbolBuckets (run events s) = symbolBuckets s"
  "buckets (run events s) = buckets s"
  by (induction events arbitrary: s) simp_all

lemma run_effects_mono:
  "set (effects s) \<subseteq> set (effects (run events s))"
proof (induction events arbitrary: s)
  case Nil
  then show ?case by simp
next
  case (Cons ev events)
  from deliver_effects_mono [of s ev] Cons.IH [of "deliver ev s"] show ?case by auto
qed

lemma run_deps:
  "deps (run events s) = deps s
     + (if glyphsPending s \<and> firstGlyphs events = Some None then 1 else 0)
     + (if iconsPending s \<and> firstIcons events = Some None then 1 else 0)"
proof (induction events arbitrary: s)
  case Nil
  then show ?case by simp
next
  case (Cons ev events)
  show ?case
  proof (cases ev)
    case (GlyphsResponse err)
    then show ?thesis
      by (simp add: Cons.IH deliver_deps deliver_glyphsPending deliver_iconsPending)
  next
    case (IconsResponse err)
    then show ?thesis
      by (simp add: Cons.IH deliver_deps deliver_glyphsPending deliver_iconsPending)
  next
    case (RedoPlacement a p sh)
    then show ?thesis
      by (simp add: Cons.IH)
  qed
qed

lemma run_deps_mono: "deps s \<le> deps (run events s)"
  by (simp add: run_deps)


lemma run_results:
  "callbackResults (effects (run events s)) = callbackResults (effects s) @
     (if deps s < 2 \<and> 2 \<le> deps (run events s) then [serializedBuckets (buckets s)] else [])"
proof (induction events arbitrary: s)
  case Nil
  then show ?case by auto
next
  case (Cons ev events)
  have step: "deps s \<le> deps (deliver ev s)" "deps (deliver ev s) \<le> deps s + 1"
    by (simp_all add: deliver_deps)
  have later: "deps (deliver ev s) \<le> deps (run events (deliver ev s))"
    by (rule run_deps_mono)
  show ?case
    using step later
    by (auto simp: Cons.IH [of "deliver ev s"] deliver_results)
qed

lemma run_status:
  "status (run events s) = (if deps s < 2 \<and> 2 \<le> deps (run events s) then Done else status s)"
proof (induction events arbitrary: s)
  case Nil
  then show ?case by auto
next
  case (Cons ev events)
  have step: "deps s \<le> deps (deliver ev s)" "deps (deliver ev s) \<le> deps s + 1"
    by (simp_all add: deliver_deps)
  have later: "deps (deliver ev s) \<le> deps (run events (deliver ev s))"
    by (rule run_deps_mono)
  show ?case
    using step later
    by (auto simp: Cons.IH [of "deliver ev s"] deliver_status)
qed

lemma run_glyphs_error:
  "glyphsPending s \<Longrightarrow> firstGlyphs events = Some (Some e) \<Longrightarrow>
     CallbackError e \<in> set (effects (run events s))"
proof (induction events arbitrary: s)
  case Nil
  then show ?case by simp
next
  case (Cons ev events)
  show ?case
  proof (cases ev)
    case (GlyphsResponse err)
    with Cons.prems have "CallbackError e \<in> set (effects (deliver ev s))"
      by (simp add: gotDependency_error)
    with run_effects_mono [of "deliver ev s" events] show ?thesis by auto
  next
    case (IconsResponse err)
    with Cons.prems Cons.IH [of "deliver ev s"] show ?thesis
      by (simp add: deliver_glyphsPending del: deliver.simps)
  next
    case (RedoPlacement a p sh)
    with Cons.prems Cons.IH [of "deliver ev s"] show ?thesis
      by (simp add: deliver_glyphsPending del: deliver.simps)
  qed
qed

lemma run_icons_error:
  "iconsPending s \<Longrightarrow> firstIcons events = Some (Some e) \<Longrightarrow>
     CallbackError e \<in> set (effects (run events s))"
proof (induction events arbitrary: s)
  case Nil
  then show ?case by simp
next
  case (Cons ev events)
  show ?case
  proof (cases ev)
    case (IconsResponse err)
    with Cons.prems have "CallbackError e \<in> set (effects (deliver ev s))"
      by (simp add: gotDependency_error)
    with run_effects_mono [of "deliver ev s" events] show ?thesis by auto
  next
    case (GlyphsResponse err)
    with Cons.prems Cons.IH [of "deliver ev s"] show ?thesis
      by (simp add: deliver_iconsPending del: deliver.simps)
  next
    case (RedoPlacement a p sh)
    with Cons.prems Cons.IH [of "deliver ev s"] show ?thesis
      by (simp add: deliver_iconsPending del: deliver.simps)
  qed
qed

lemmas object_eval =
  symbolBucketsOf_def iconsOf_def visitOrder_def Object_keys_def forIn_def assign_def
  isArrayIndex_def isDigit_def parseUint_def digitValue_def

lemma parse_symbolBuckets [simp]:
  "symbolBuckets (parse bs t0) = symbolBucketsOf bs"
  by (simp add: parse_def Let_def symbolBucketsOf_def visitOrder_def fold_parseBucket)

lemma parse_gated:
  assumes "symbolBucketsOf bs \<noteq> []"
  shows "status (parse bs t0) = Parsing"
    "glyphsPending (parse bs t0)"
    "iconsPending (parse bs t0) = (iconsOf bs \<noteq> [])"
    "deps (parse bs t0) = (if iconsOf bs = [] then 1 else 0)"
    "symbolPopulates (effects (parse bs t0)) = symbolPopulates (effects t0)"
    "callbackResults (effects (parse bs t0)) = callbackResults (effects t0)"
  using assms
  by (simp_all add: parse_def Let_def symbolBucketsOf_def visitOrder_def iconsOf_def fold_parseBucket
      gotDependency_def)
















text \<open>
  Claim C3. For a tile parse with at least one non-empty symbol bucket: if the response to
  the glyph request, or to the icon request when one was sent, arrives with an error, then
  the callback has been called with that error, it is never called with a result, whatever
  else arrives, and the tile does not become \<open>done\<close>.
\<close>

theorem dependency_error_no_result:
  "symbolBucketsOf bs \<noteq> []
     \<and> (firstGlyphs events = Some (Some e)
          \<or> (iconsOf bs \<noteq> [] \<and> firstIcons events = Some (Some e)))
   \<longrightarrow> CallbackError e \<in> set (effects (run events (parse bs t0)))
       \<and> callbackResults (effects (run events (parse bs t0))) = callbackResults (effects t0)
       \<and> status (run events (parse bs t0)) = Parsing"
proof
  assume a: "symbolBucketsOf bs \<noteq> []
     \<and> (firstGlyphs events = Some (Some e)
          \<or> (iconsOf bs \<noteq> [] \<and> firstIcons events = Some (Some e)))"
  then have syms: "symbolBucketsOf bs \<noteq> []" by simp
  note g = parse_gated [OF syms, of t0]
  from a have failed: "firstGlyphs events \<noteq> Some None
      \<or> (iconsOf bs \<noteq> [] \<and> firstIcons events \<noteq> Some None)"
    by auto
  then have d: "deps (run events (parse bs t0)) < 2"
    by (auto simp: run_deps g)
  have err: "CallbackError e \<in> set (effects (run events (parse bs t0)))"
    using a g run_glyphs_error [of "parse bs t0" events e]
      run_icons_error [of "parse bs t0" events e]
    by auto
  have res: "callbackResults (effects (run events (parse bs t0))) = callbackResults (effects t0)"
    using d by (simp add: run_results [of events "parse bs t0"] g)
  have st: "status (run events (parse bs t0)) = Parsing"
    using d by (simp add: run_status [of events "parse bs t0"] g)
  from err res st
  show "CallbackError e \<in> set (effects (run events (parse bs t0)))
       \<and> callbackResults (effects (run events (parse bs t0))) = callbackResults (effects t0)
       \<and> status (run events (parse bs t0)) = Parsing"
    by (intro conjI)
qed

theorem dependency_error_no_result_witness:
  "CallbackError ''boom'' \<in> set (effects (run
       [IconsResponse (Some ''boom''), GlyphsResponse None]
       (parse
          [\<lparr>bucket_id = ''a'', bucket_type = ''symbol'', features_length = 1,
              bucket_icons = [''x''], buffers_nonempty = True\<rparr>,
           \<lparr>bucket_id = ''f'', bucket_type = ''fill'', features_length = 2,
              bucket_icons = [], buffers_nonempty = True\<rparr>]
          (\<lparr>status = Unparsed, angle = 0, pitch = 0, showCollisionBoxes = False,
            redoPlacementAfterDone = False, symbolBuckets = [], buckets = [], deps = 0,
            glyphsPending = False, iconsPending = False,
            effects = []\<rparr> :: (int, string) WorkerTile))))
   \<and> callbackResults (effects (run
       [IconsResponse (Some ''boom''), GlyphsResponse None]
       (parse
          [\<lparr>bucket_id = ''a'', bucket_type = ''symbol'', features_length = 1,
              bucket_icons = [''x''], buffers_nonempty = True\<rparr>,
           \<lparr>bucket_id = ''f'', bucket_type = ''fill'', features_length = 2,
              bucket_icons = [], buffers_nonempty = True\<rparr>]
          (\<lparr>status = Unparsed, angle = 0, pitch = 0, showCollisionBoxes = False,
            redoPlacementAfterDone = False, symbolBuckets = [], buckets = [], deps = 0,
            glyphsPending = False, iconsPending = False,
            effects = []\<rparr> :: (int, string) WorkerTile)))) = []"
proof -
  define t0 :: "(int, string) WorkerTile" where
    "t0 = \<lparr>status = Unparsed, angle = 0, pitch = 0, showCollisionBoxes = False,
            redoPlacementAfterDone = False, symbolBuckets = [], buckets = [], deps = 0,
            glyphsPending = False, iconsPending = False, effects = []\<rparr>"
  define bs where "bs =
          [\<lparr>bucket_id = ''a'', bucket_type = ''symbol'', features_length = 1,
              bucket_icons = [''x''], buffers_nonempty = True\<rparr>,
           \<lparr>bucket_id = ''f'', bucket_type = ''fill'', features_length = 2,
              bucket_icons = [], buffers_nonempty = True\<rparr>]"
  have syms: "symbolBucketsOf bs \<noteq> []" "iconsOf bs \<noteq> []"
    by (simp_all add: bs_def object_eval)
  have e0: "callbackResults (effects t0) = []"
    by (simp add: t0_def callbackResults_def)
  from dependency_error_no_result
    [of bs "[IconsResponse (Some ''boom''), GlyphsResponse None]" "''boom''" t0] syms e0
  have "CallbackError ''boom'' \<in> set (effects (run
       [IconsResponse (Some ''boom''), GlyphsResponse None] (parse bs t0)))
     \<and> callbackResults (effects (run
       [IconsResponse (Some ''boom''), GlyphsResponse None] (parse bs t0))) = []"
    by simp
  then show ?thesis
    unfolding t0_def bs_def .
qed

lemma placements_append [simp]: "placements (es @ es') = placements es @ placements es'"
  by (simp add: placements_def)

lemma placements_simps [simp]:
  "placements [] = []"
  "placements (NewCollisionTile a p # es) = (a, p) # placements es"
  "placements (SendGetGlyphs # es) = placements es"
  "placements (SendGetIcons ic # es) = placements es"
  "placements (PlaceFeatures b sh # es) = placements es"
  "placements (CallbackError e # es) = placements es"
  "placements (CallbackResult r # es) = placements es"
  "placements (PopulateBuffers b # es) = placements es"
  by (simp_all add: placements_def)

lemma placements_map_Populate [simp]: "placements (map PopulateBuffers bs) = []"
  by (induction bs) simp_all

lemma placements_map_Place [simp]: "placements (map (\<lambda>b. PlaceFeatures b sh) bs) = []"
  by (induction bs) simp_all

lemma gotDependency_placement:
  "placements (effects (gotDependency err t)) = placements (effects t) @
     (if err = None \<and> deps t = 1 \<and> redoPlacementAfterDone t then [(angle t, pitch t)] else [])"
  "redoPlacementAfterDone (gotDependency err t) =
     (if err = None \<and> deps t = 1 then False else redoPlacementAfterDone t)"
  "angle (gotDependency err t) = angle t"
  "pitch (gotDependency err t) = pitch t"
  by (simp_all add: gotDependency_def Let_def fold_parseBucket doneParsing_effects
      doneParsing_def redoPlacement_def split: option.splits)

lemma response_placement:
  assumes "isResponse ev"
  shows "placements (effects (deliver ev s)) = placements (effects s) @
     (if deps s = 1 \<and> deps (deliver ev s) = 2 \<and> redoPlacementAfterDone s
      then [(angle s, pitch s)] else [])"
    and "redoPlacementAfterDone (deliver ev s) =
     (if deps s = 1 \<and> deps (deliver ev s) = 2 then False else redoPlacementAfterDone s)"
    and "angle (deliver ev s) = angle s" and "pitch (deliver ev s) = pitch s"
  using assms by (cases ev; auto simp: gotDependency_placement)+

lemma run_responses_placement:
  assumes "\<forall>ev \<in> set events. isResponse ev"
  shows "placements (effects (run events s)) = placements (effects s) @
     (if deps s < 2 \<and> 2 \<le> deps (run events s) \<and> redoPlacementAfterDone s
      then [(angle s, pitch s)] else [])
    \<and> redoPlacementAfterDone (run events s) =
     (if deps s < 2 \<and> 2 \<le> deps (run events s) then False else redoPlacementAfterDone s)"
  using assms
proof (induction events arbitrary: s)
  case Nil
  then show ?case by auto
next
  case (Cons ev events)
  then have r: "isResponse ev" and rest: "\<forall>ev \<in> set events. isResponse ev" by simp_all
  have step: "deps s \<le> deps (deliver ev s)" "deps (deliver ev s) \<le> deps s + 1"
    by (simp_all add: deliver_deps)
  have later: "deps (deliver ev s) \<le> deps (run events (deliver ev s))"
    by (rule run_deps_mono)
  note ih = Cons.IH [OF rest, of "deliver ev s"]
  show ?case
    using step later
    by (auto simp: ih response_placement [OF r])
qed

lemma redoPlacement_then_done:
  assumes "status s \<noteq> Done" "deps s < 2" "\<forall>ev \<in> set rest. isResponse ev"
    "2 \<le> deps (run rest s)"
  shows "placements (effects (run (RedoPlacement a p sh # rest) s)) =
           placements (effects s) @ [(a, pitch s)]"
    "\<not> redoPlacementAfterDone (run (RedoPlacement a p sh # rest) s)"
    "status (run (RedoPlacement a p sh # rest) s) = Done"
proof -
  define s1 where "s1 = deliver (RedoPlacement a p sh) s"
  have s1: "deps s1 = deps s" "glyphsPending s1 = glyphsPending s"
    "iconsPending s1 = iconsPending s" "redoPlacementAfterDone s1" "angle s1 = a"
    "pitch s1 = pitch s" "effects s1 = effects s" "status s1 = status s"
    using assms(1) by (simp_all add: s1_def redoPlacement_def)
  have d: "deps (run rest s1) = deps (run rest s)"
    by (simp add: run_deps s1)
  have e: "run (RedoPlacement a p sh # rest) s = run rest s1"
    by (simp add: s1_def)
  from run_responses_placement [OF assms(3), of s1] assms(2,4) s1 d
  show "placements (effects (run (RedoPlacement a p sh # rest) s)) =
           placements (effects s) @ [(a, pitch s)]"
    "\<not> redoPlacementAfterDone (run (RedoPlacement a p sh # rest) s)"
    unfolding e by simp_all
  from run_status [of rest s1] assms(2,4) s1 d
  show "status (run (RedoPlacement a p sh # rest) s) = Done"
    unfolding e by simp
qed

text \<open>
  Claim C4. On a tile whose status is not \<open>done\<close>, \<open>redoPlacement\<close> returns the empty object
  and changes nothing but the flag, which it sets, and the angle, which it stores: no
  collision tile is constructed and no bucket is touched. When \<open>done\<close> then runs, it
  constructs one collision tile with the stored angle (and the tile's own pitch), places
  the features of the symbol buckets in reverse order once, clears the flag and calls the
  callback; with the flag clear, \<open>done\<close> places nothing. In a run: when \<open>redoPlacement\<close> is
  called while the dependencies are outstanding and the responses that follow complete
  them, exactly one collision tile has been constructed since the call, with the requested
  angle; the flag is clear and the tile is \<open>done\<close>.
\<close>

theorem redoPlacement_deferred:
  "(status this \<noteq> Done \<longrightarrow>
      redoPlacement a p sh this =
        (EmptyObject, this\<lparr>redoPlacementAfterDone := True, angle := a\<rparr>))
   \<and> (status this \<noteq> Done \<longrightarrow>
      doneParsing (snd (redoPlacement a p sh this)) =
        this\<lparr>status := Done, angle := a, redoPlacementAfterDone := False,
             effects := effects this @
               NewCollisionTile a (pitch this) #
               map (\<lambda>b. PlaceFeatures b None) (rev (symbolBuckets this)) @
               [CallbackResult (serializedBuckets (buckets this))]\<rparr>)
   \<and> (\<not> redoPlacementAfterDone this \<longrightarrow>
      doneParsing this =
        this\<lparr>status := Done,
             effects := effects this @ [CallbackResult (serializedBuckets (buckets this))]\<rparr>)
   \<and> (status this \<noteq> Done \<and> deps this < 2 \<and> (\<forall>ev \<in> set rest. isResponse ev)
        \<and> 2 \<le> deps (run rest this) \<longrightarrow>
      placements (effects (run (RedoPlacement a p show_boxes # rest) this)) =
        placements (effects this) @ [(a, pitch this)]
      \<and> \<not> redoPlacementAfterDone (run (RedoPlacement a p show_boxes # rest) this)
      \<and> status (run (RedoPlacement a p show_boxes # rest) this) = Done)"
proof -
  have abc: "(status this \<noteq> Done \<longrightarrow>
      redoPlacement a p sh this =
        (EmptyObject, this\<lparr>redoPlacementAfterDone := True, angle := a\<rparr>))
   \<and> (status this \<noteq> Done \<longrightarrow>
      doneParsing (snd (redoPlacement a p sh this)) =
        this\<lparr>status := Done, angle := a, redoPlacementAfterDone := False,
             effects := effects this @
               NewCollisionTile a (pitch this) #
               map (\<lambda>b. PlaceFeatures b None) (rev (symbolBuckets this)) @
               [CallbackResult (serializedBuckets (buckets this))]\<rparr>)
   \<and> (\<not> redoPlacementAfterDone this \<longrightarrow>
      doneParsing this =
        this\<lparr>status := Done,
             effects := effects this @ [CallbackResult (serializedBuckets (buckets this))]\<rparr>)"
    by (simp add: redoPlacement_def doneParsing_def perform_def Let_def)
  have d: "status this \<noteq> Done \<and> deps this < 2 \<and> (\<forall>ev \<in> set rest. isResponse ev)
        \<and> 2 \<le> deps (run rest this) \<longrightarrow>
      placements (effects (run (RedoPlacement a p show_boxes # rest) this)) =
        placements (effects this) @ [(a, pitch this)]
      \<and> \<not> redoPlacementAfterDone (run (RedoPlacement a p show_boxes # rest) this)
      \<and> status (run (RedoPlacement a p show_boxes # rest) this) = Done"
    using redoPlacement_then_done [of this rest a p show_boxes] by blast
  from abc d show ?thesis by (intro conjI) (elim conjE, assumption)+
qed

theorem redoPlacement_deferred_witness:
  "redoPlacement 5 6 (Some True)
      (\<lparr>status = Parsing, angle = 1, pitch = 2, showCollisionBoxes = False,
        redoPlacementAfterDone = False,
        symbolBuckets = [\<lparr>bucket_id = ''a'', bucket_type = ''symbol'', features_length = 1,
              bucket_icons = [], buffers_nonempty = True\<rparr>],
        buckets = [\<lparr>bucket_id = ''a'', bucket_type = ''symbol'', features_length = 1,
              bucket_icons = [], buffers_nonempty = True\<rparr>],
        deps = 1, glyphsPending = True, iconsPending = False,
        effects = []\<rparr> :: (int, string) WorkerTile)
     = (EmptyObject,
        \<lparr>status = Parsing, angle = 5, pitch = 2, showCollisionBoxes = False,
        redoPlacementAfterDone = True,
        symbolBuckets = [\<lparr>bucket_id = ''a'', bucket_type = ''symbol'', features_length = 1,
              bucket_icons = [], buffers_nonempty = True\<rparr>],
        buckets = [\<lparr>bucket_id = ''a'', bucket_type = ''symbol'', features_length = 1,
              bucket_icons = [], buffers_nonempty = True\<rparr>],
        deps = 1, glyphsPending = True, iconsPending = False, effects = []\<rparr>)
   \<and> effects (doneParsing (snd (redoPlacement 5 6 (Some True)
      (\<lparr>status = Parsing, angle = 1, pitch = 2, showCollisionBoxes = False,
        redoPlacementAfterDone = False,
        symbolBuckets = [\<lparr>bucket_id = ''a'', bucket_type = ''symbol'', features_length = 1,
              bucket_icons = [], buffers_nonempty = True\<rparr>],
        buckets = [\<lparr>bucket_id = ''a'', bucket_type = ''symbol'', features_length = 1,
              bucket_icons = [], buffers_nonempty = True\<rparr>],
        deps = 1, glyphsPending = True, iconsPending = False,
        effects = []\<rparr> :: (int, string) WorkerTile))))
     = [NewCollisionTile 5 2,
        PlaceFeatures \<lparr>bucket_id = ''a'', bucket_type = ''symbol'', features_length = 1,
              bucket_icons = [], buffers_nonempty = True\<rparr> None,
        CallbackResult [''a'']]
   \<and> effects (doneParsing
      (\<lparr>status = Parsing, angle = 1, pitch = 2, showCollisionBoxes = False,
        redoPlacementAfterDone = False,
        symbolBuckets = [\<lparr>bucket_id = ''a'', bucket_type = ''symbol'', features_length = 1,
              bucket_icons = [], buffers_nonempty = True\<rparr>],
        buckets = [\<lparr>bucket_id = ''a'', bucket_type = ''symbol'', features_length = 1,
              bucket_icons = [], buffers_nonempty = True\<rparr>],
        deps = 1, glyphsPending = True, iconsPending = False,
        effects = []\<rparr> :: (int, string) WorkerTile))
     = [CallbackResult [''a'']]
   \<and> placements (effects (run [RedoPlacement 5 6 True, GlyphsResponse None]
      (\<lparr>status = Parsing, angle = 1, pitch = 2, showCollisionBoxes = False,
        redoPlacementAfterDone = False,
        symbolBuckets = [\<lparr>bucket_id = ''a'', bucket_type = ''symbol'', features_length = 1,
              bucket_icons = [], buffers_nonempty = True\<rparr>],
        buckets = [\<lparr>bucket_id = ''a'', bucket_type = ''symbol'', features_length = 1,
              bucket_icons = [], buffers_nonempty = True\<rparr>],
        deps = 1, glyphsPending = True, iconsPending = False,
        effects = []\<rparr> :: (int, string) WorkerTile)))
     = [(5, 2)]
   \<and> status (run [RedoPlacement 5 6 True, GlyphsResponse None]
      (\<lparr>status = Parsing, angle = 1, pitch = 2, showCollisionBoxes = False,
        redoPlacementAfterDone = False,
        symbolBuckets = [\<lparr>bucket_id = ''a'', bucket_type = ''symbol'', features_length = 1,
              bucket_icons = [], buffers_nonempty = True\<rparr>],
        buckets = [\<lparr>bucket_id = ''a'', bucket_type = ''symbol'', features_length = 1,
              bucket_icons = [], buffers_nonempty = True\<rparr>],
        deps = 1, glyphsPending = True, iconsPending = False,
        effects = []\<rparr> :: (int, string) WorkerTile))
     = Done"
proof -
  define w :: "(int, string) WorkerTile" where
    "w = \<lparr>status = Parsing, angle = 1, pitch = 2, showCollisionBoxes = False,
        redoPlacementAfterDone = False,
        symbolBuckets = [\<lparr>bucket_id = ''a'', bucket_type = ''symbol'', features_length = 1,
              bucket_icons = [], buffers_nonempty = True\<rparr>],
        buckets = [\<lparr>bucket_id = ''a'', bucket_type = ''symbol'', features_length = 1,
              bucket_icons = [], buffers_nonempty = True\<rparr>],
        deps = 1, glyphsPending = True, iconsPending = False, effects = []\<rparr>"
  have st: "status w \<noteq> Done" by (simp add: w_def)
  have fl: "\<not> redoPlacementAfterDone w" by (simp add: w_def)
  have gate: "status w \<noteq> Done \<and> deps w < 2
      \<and> (\<forall>ev \<in> set [GlyphsResponse None :: (int, string) event]. isResponse ev)
      \<and> 2 \<le> deps (run [GlyphsResponse None] w)"
    by (simp add: w_def run_deps)
  note inst = redoPlacement_deferred [of w 5 6 "Some True" "[GlyphsResponse None]" True]
  from inst [THEN conjunct1, THEN mp, OF st]
  have 1: "redoPlacement 5 6 (Some True) w =
      (EmptyObject, w\<lparr>redoPlacementAfterDone := True, angle := 5\<rparr>)" .
  from inst [THEN conjunct2, THEN conjunct1, THEN mp, OF st]
  have 2: "effects (doneParsing (snd (redoPlacement 5 6 (Some True) w))) =
      effects w @ NewCollisionTile 5 (pitch w) #
        map (\<lambda>b. PlaceFeatures b None) (rev (symbolBuckets w)) @
        [CallbackResult (serializedBuckets (buckets w))]"
    by simp
  from inst [THEN conjunct2, THEN conjunct2, THEN conjunct1, THEN mp, OF fl]
  have 3: "effects (doneParsing w) =
      effects w @ [CallbackResult (serializedBuckets (buckets w))]"
    by simp
  from inst [THEN conjunct2, THEN conjunct2, THEN conjunct2, THEN mp, OF gate]
  have 4: "placements (effects (run [RedoPlacement 5 6 True, GlyphsResponse None] w)) =
      placements (effects w) @ [(5, pitch w)]"
    and 5: "status (run [RedoPlacement 5 6 True, GlyphsResponse None] w) = Done"
    by simp_all
  have v1: "w\<lparr>redoPlacementAfterDone := True, angle := 5\<rparr> =
      \<lparr>status = Parsing, angle = 5, pitch = 2, showCollisionBoxes = False,
        redoPlacementAfterDone = True,
        symbolBuckets = [\<lparr>bucket_id = ''a'', bucket_type = ''symbol'', features_length = 1,
              bucket_icons = [], buffers_nonempty = True\<rparr>],
        buckets = [\<lparr>bucket_id = ''a'', bucket_type = ''symbol'', features_length = 1,
              bucket_icons = [], buffers_nonempty = True\<rparr>],
        deps = 1, glyphsPending = True, iconsPending = False, effects = []\<rparr>"
    by (simp add: w_def)
  have v2: "effects w @ NewCollisionTile 5 (pitch w) #
        map (\<lambda>b. PlaceFeatures b None) (rev (symbolBuckets w)) @
        [CallbackResult (serializedBuckets (buckets w))] =
      [NewCollisionTile 5 2,
        PlaceFeatures \<lparr>bucket_id = ''a'', bucket_type = ''symbol'', features_length = 1,
              bucket_icons = [], buffers_nonempty = True\<rparr> None,
        CallbackResult [''a'']]"
    by (simp add: w_def serializedBuckets_def)
  have v3: "effects w @ [CallbackResult (serializedBuckets (buckets w))] =
      [CallbackResult [''a'']]"
    by (simp add: w_def serializedBuckets_def)
  have v4: "placements (effects w) @ [(5, pitch w)] = [(5, 2)]"
    by (simp add: w_def)
  have "redoPlacement 5 6 (Some True) w =
      (EmptyObject,
        \<lparr>status = Parsing, angle = 5, pitch = 2, showCollisionBoxes = False,
        redoPlacementAfterDone = True,
        symbolBuckets = [\<lparr>bucket_id = ''a'', bucket_type = ''symbol'', features_length = 1,
              bucket_icons = [], buffers_nonempty = True\<rparr>],
        buckets = [\<lparr>bucket_id = ''a'', bucket_type = ''symbol'', features_length = 1,
              bucket_icons = [], buffers_nonempty = True\<rparr>],
        deps = 1, glyphsPending = True, iconsPending = False, effects = []\<rparr>)
    \<and> effects (doneParsing (snd (redoPlacement 5 6 (Some True) w))) =
      [NewCollisionTile 5 2,
        PlaceFeatures \<lparr>bucket_id = ''a'', bucket_type = ''symbol'', features_length = 1,
              bucket_icons = [], buffers_nonempty = True\<rparr> None,
        CallbackResult [''a'']]
    \<and> effects (doneParsing w) = [CallbackResult [''a'']]
    \<and> placements (effects (run [RedoPlacement 5 6 True, GlyphsResponse None] w)) = [(5, 2)]
    \<and> status (run [RedoPlacement 5 6 True, GlyphsResponse None] w) = Done"
    using 1 2 3 4 5 by (simp only: v1 v2 v3 v4)
  then show ?thesis
    unfolding w_def .
qed

section \<open>Properties of the feature tree\<close>

lemma fold_grid_insert_frame:
  "fold (\<lambda>ring t. t\<lparr>grid := Grid_insert key (ringBBox ring) (grid t)\<rparr>) geometry this
     = this\<lparr>grid := fold (\<lambda>ring g. Grid_insert key (ringBBox ring) g) geometry (grid this)\<rparr>"
  by (induction geometry arbitrary: this) simp_all

lemma insert_feature_eq:
  "insert_feature geometry fi sli bi this =
     this\<lparr>featureIndexArray := emplaceBack fi sli bi (featureIndexArray this),
          grid := fold (\<lambda>ring g. Grid_insert (length (featureIndexArray this)) (ringBBox ring) g)
                    geometry (grid this)\<rparr>"
  by (simp add: insert_feature_def Let_def fold_grid_insert_frame)

lemma insert_feature_frame [simp]:
  "coord (insert_feature geometry fi sli bi this) = coord this"
  "overscaling (insert_feature geometry fi sli bi this) = overscaling this"
  "tree_x (insert_feature geometry fi sli bi this) = tree_x this"
  "tree_y (insert_feature geometry fi sli bi this) = tree_y this"
  "tree_z (insert_feature geometry fi sli bi this) = tree_z this"
  "rawTileData (insert_feature geometry fi sli bi this) = rawTileData this"
  "bucketLayerIDs (insert_feature geometry fi sli bi this) = bucketLayerIDs this"
  "collisionTile (insert_feature geometry fi sli bi this) = collisionTile this"
  "vtLayers (insert_feature geometry fi sli bi this) = vtLayers this"
  by (simp_all add: insert_feature_eq)

lemma insertAll_frame [simp]:
  "coord (insertAll inserts this) = coord this"
  "overscaling (insertAll inserts this) = overscaling this"
  "tree_x (insertAll inserts this) = tree_x this"
  "tree_y (insertAll inserts this) = tree_y this"
  "tree_z (insertAll inserts this) = tree_z this"
  "rawTileData (insertAll inserts this) = rawTileData this"
  "bucketLayerIDs (insertAll inserts this) = bucketLayerIDs this"
  "collisionTile (insertAll inserts this) = collisionTile this"
  "vtLayers (insertAll inserts this) = vtLayers this"
  unfolding insertAll_def
  by (induction inserts arbitrary: this; simp add: case_prod_beta)+

lemma insertAll_length:
  "length (featureIndexArray (insertAll inserts this)) =
     length (featureIndexArray this) + length inserts"
  unfolding insertAll_def
  by (induction inserts arbitrary: this)
     (simp_all add: case_prod_beta insert_feature_eq emplaceBack_def)

lemma deserialize_serialize:
  assumes "coherent this"
  shows "FeatureTree_new (FromSerialized (serialize this) raw) ct =
     this\<lparr>rawTileData := Some raw, collisionTile := ct, vtLayers := None\<rparr>"
  using assms
  by (simp add: serialize_def toArrayBuffer_def FeatureIndexArray_serialize_def coherent_def
      Let_def)

lemma coherent_new: "coherent (FeatureTree_new (FromCoord c ov) ct)"
  by (simp add: coherent_def)

lemma coherent_insertAll: "coherent this \<Longrightarrow> coherent (insertAll inserts this)"
  by (simp add: coherent_def)

text \<open>
  Claim C8. Take any tree made by the constructor and any sequence of \<open>insert\<close> calls, with
  whatever raw tile data and bucket layer ids the worker has assigned to it. The tree
  constructed from its serialized data, raw tile bytes and a collision tile has the same
  grid, the same feature index array (one record per inserted feature), the same bucket
  layer ids, coordinate, overscaling, \<open>x\<close>, \<open>y\<close> and \<open>z\<close>. When the raw tile bytes and the
  collision tile are the original's, it is the original tree, and what a query reads of it
  is what it reads of the original, also when the original has decoded its layers before.
\<close>

theorem FeatureTree_serialize_roundtrip:
  "(let t = (insertAll inserts (FeatureTree_new (FromCoord c ov) ct))
              \<lparr>rawTileData := r, bucketLayerIDs := ids\<rparr>;
        t' = FeatureTree_new (FromSerialized (serialize t) raw) ct'
    in grid t' = grid t \<and> featureIndexArray t' = featureIndexArray t
       \<and> length (featureIndexArray t') = length inserts
       \<and> bucketLayerIDs t' = bucketLayerIDs t
       \<and> coord t' = coord t \<and> overscaling t' = overscaling t
       \<and> tree_x t' = tree_x t \<and> tree_y t' = tree_y t \<and> tree_z t' = tree_z t
       \<and> rawTileData t' = Some raw \<and> collisionTile t' = ct'
       \<and> (r = Some raw \<and> ct' = ct \<longrightarrow>
            t' = t
            \<and> queryState (materialize decode t') = queryState (materialize decode t)
            \<and> queryState (materialize decode
                 (FeatureTree_new (FromSerialized (serialize (materialize decode t)) raw) ct'))
               = queryState (materialize decode t)))"
proof -
  define t :: "('a, 'b, 'c, 'd) FeatureTree" where
    "t = (insertAll inserts (FeatureTree_new (FromCoord c ov) ct))
              \<lparr>rawTileData := r, bucketLayerIDs := ids\<rparr>"
  have coh: "coherent t"
    using coherent_insertAll [OF coherent_new, of inserts c ov ct]
    by (simp add: t_def coherent_def)
  have cohm: "coherent (materialize decode t)"
    using coh by (simp add: materialize_def coherent_def)
  have d: "FeatureTree_new (FromSerialized (serialize t) raw) ct' =
      t\<lparr>rawTileData := Some raw, collisionTile := ct', vtLayers := None\<rparr>"
    by (rule deserialize_serialize [OF coh])
  have dm: "FeatureTree_new (FromSerialized (serialize (materialize decode t)) raw) ct' =
      (materialize decode t)\<lparr>rawTileData := Some raw, collisionTile := ct', vtLayers := None\<rparr>"
    by (rule deserialize_serialize [OF cohm])
  have fresh: "vtLayers t = None" "collisionTile t = ct" "rawTileData t = r"
    by (simp_all add: t_def)
  have len: "length (featureIndexArray t) = length inserts"
    by (simp add: t_def insertAll_length)
  have same: "r = Some raw \<and> ct' = ct \<longrightarrow>
      t\<lparr>rawTileData := Some raw, collisionTile := ct', vtLayers := None\<rparr> = t"
    using fresh by auto
  have q: "r = Some raw \<and> ct' = ct \<longrightarrow>
      queryState (materialize decode
         ((materialize decode t)\<lparr>rawTileData := Some raw, collisionTile := ct',
              vtLayers := None\<rparr>))
       = queryState (materialize decode t)"
    using fresh by (auto simp: materialize_def queryState_def)
  show ?thesis
    unfolding Let_def t_def [symmetric] d dm
    using same q len by auto
qed

theorem FeatureTree_serialize_roundtrip_witness:
  "(FeatureTree_new (FromSerialized (serialize
       ((insertAll [([[(1, 2), (5, 3)], []], 7, 0, 65537)]
          (FeatureTree_new (FromCoord \<lparr>coord_z = 3, coord_x = 1, coord_y = 2\<rparr> 1) (Some ())
             :: (nat, unit, string list list, nat) FeatureTree))
        \<lparr>rawTileData := Some 42, bucketLayerIDs := Some [[''a'']]\<rparr>)) 42) (Some ())
          :: (nat, unit, string list list, nat) FeatureTree)
   = (insertAll [([[(1, 2), (5, 3)], []], 7, 0, 65537)]
          (FeatureTree_new (FromCoord \<lparr>coord_z = 3, coord_x = 1, coord_y = 2\<rparr> 1) (Some ())
             :: (nat, unit, string list list, nat) FeatureTree))
        \<lparr>rawTileData := Some 42, bucketLayerIDs := Some [[''a'']]\<rparr>
   \<and> grid_entries (grid (FeatureTree_new (FromSerialized (serialize
       ((insertAll [([[(1, 2), (5, 3)], []], 7, 0, 65537)]
          (FeatureTree_new (FromCoord \<lparr>coord_z = 3, coord_x = 1, coord_y = 2\<rparr> 1) (Some ())
             :: (nat, unit, string list list, nat) FeatureTree))
        \<lparr>rawTileData := Some 42, bucketLayerIDs := Some [[''a'']]\<rparr>)) 42) (Some ())
          :: (nat, unit, string list list, nat) FeatureTree))
     = [(0, Finite 1, Finite 2, Finite 5, Finite 3),
        (0, PlusInfinity, PlusInfinity, MinusInfinity, MinusInfinity)]
   \<and> featureIndexArray (FeatureTree_new (FromSerialized (serialize
       ((insertAll [([[(1, 2), (5, 3)], []], 7, 0, 65537)]
          (FeatureTree_new (FromCoord \<lparr>coord_z = 3, coord_x = 1, coord_y = 2\<rparr> 1) (Some ())
             :: (nat, unit, string list list, nat) FeatureTree))
        \<lparr>rawTileData := Some 42, bucketLayerIDs := Some [[''a'']]\<rparr>)) 42) (Some ())
          :: (nat, unit, string list list, nat) FeatureTree)
     = [\<lparr>featureIndex = 7, sourceLayerIndex = 0, bucketIndex = 1\<rparr>]"
proof -
  define t :: "(nat, unit, string list list, nat) FeatureTree" where
    "t = (insertAll [([[(1, 2), (5, 3)], []], 7, 0, 65537)]
          (FeatureTree_new (FromCoord \<lparr>coord_z = 3, coord_x = 1, coord_y = 2\<rparr> 1) (Some ())
             :: (nat, unit, string list list, nat) FeatureTree))
        \<lparr>rawTileData := Some 42, bucketLayerIDs := Some [[''a'']]\<rparr>"
  note inst = FeatureTree_serialize_roundtrip
      [where inserts = "[([[(1, 2), (5, 3)], []], 7, 0, 65537)]"
        and c = "\<lparr>coord_z = 3, coord_x = 1, coord_y = 2\<rparr>" and ov = 1 and ct = "Some ()"
        and r = "Some (42::nat)" and ids = "Some [[''a'']]" and raw = 42 and ct' = "Some ()"
        and decode = "\<lambda>r. (0::nat)",
        unfolded Let_def, folded t_def]
  from inst have eq: "FeatureTree_new (FromSerialized (serialize t) 42) (Some ()) = t"
    by simp
  have g: "grid_entries (grid t) = [(0, Finite 1, Finite 2, Finite 5, Finite 3),
        (0, PlusInfinity, PlusInfinity, MinusInfinity, MinusInfinity)]"
    by (simp add: t_def insertAll_def insert_feature_eq Grid_insert_def Grid_new_def
        ringBBox_def emplaceBack_def)
  have a: "featureIndexArray t = [\<lparr>featureIndex = 7, sourceLayerIndex = 0, bucketIndex = 1\<rparr>]"
    by (simp add: t_def insertAll_def insert_feature_eq emplaceBack_def)
  have "FeatureTree_new (FromSerialized (serialize t) 42) (Some ()) = t
      \<and> grid_entries (grid (FeatureTree_new (FromSerialized (serialize t) 42) (Some ())
            :: (nat, unit, string list list, nat) FeatureTree))
          = [(0, Finite 1, Finite 2, Finite 5, Finite 3),
             (0, PlusInfinity, PlusInfinity, MinusInfinity, MinusInfinity)]
      \<and> featureIndexArray (FeatureTree_new (FromSerialized (serialize t) 42) (Some ())
            :: (nat, unit, string list list, nat) FeatureTree)
          = [\<lparr>featureIndex = 7, sourceLayerIndex = 0, bucketIndex = 1\<rparr>]"
    by (simp only: eq g a)
  then show ?thesis
    unfolding t_def .
qed

end
